theory Spec2Isabelle
  imports Main "HOL-Library.Word" "HOL-Library.Monad_Syntax" "HOL-Library.Code_Target_Numeral"
begin

unbundle bit_operations_syntax

section \<open>Go values: bytes, strings, runes\<close>

text \<open>
  A Go \<^verbatim>\<open>string\<close> and a \<^verbatim>\<open>[]byte\<close> are sequences of bytes: both are modelled as
  \<^typ>\<open>string\<close> (a list of 8-bit \<^typ>\<open>char\<close>), so \<^verbatim>\<open>len(s)\<close> is \<^term>\<open>length s\<close>
  and counts bytes. A \<^verbatim>\<open>rune\<close> and an \<^verbatim>\<open>int\<close> are modelled as \<^typ>\<open>int\<close>:
  \<^verbatim>\<open>int\<close> is taken to be 64 bits wide, and no computation of the package on values of
  that width leaves its range. A computation in the option monad returns \<^term>\<open>None\<close>
  where the Go runtime panics (an index or a slice bound out of range).
\<close>

type_synonym rune = int

definition byte :: "char \<Rightarrow> nat" where
  "byte c = of_char c"

definition RuneError :: rune where
  "RuneError = 0xFFFD"

definition MaxLatin1 :: rune where
  "MaxLatin1 = 0xFF"

text \<open>\<^verbatim>\<open>s[i]\<close> and \<^verbatim>\<open>s[lo:hi]\<close>, with the runtime's bounds checks.\<close>

definition index :: "'a list \<Rightarrow> nat \<Rightarrow> 'a option" where
  "index s i = (if i < length s then Some (s ! i) else None)"

definition slice :: "'a list \<Rightarrow> nat \<Rightarrow> nat \<Rightarrow> 'a list option" where
  "slice s lo hi = (if lo \<le> hi \<and> hi \<le> length s then Some (take (hi - lo) (drop lo s)) else None)"

subsection \<open>UTF-8, as \<^verbatim>\<open>for _, c := range s\<close> and \<^verbatim>\<open>WriteRune\<close> read and write it\<close>

definition locb :: nat where "locb = 0x80"
definition hicb :: nat where "hicb = 0xBF"

text \<open>
  \<^verbatim>\<open>utf8.DecodeRuneInString\<close>: the rune at the head of the bytes and its width; a byte
  that starts no well-formed sequence is \<^term>\<open>RuneError\<close> of width 1. The second byte's
  accepted range depends on the first (the table \<^verbatim>\<open>acceptRanges\<close>).
\<close>

definition acceptRange :: "nat \<Rightarrow> nat \<times> nat" where
  "acceptRange b0 =
     (if b0 = 0xE0 then (0xA0, hicb)
      else if b0 = 0xED then (locb, 0x9F)
      else if b0 = 0xF0 then (0x90, hicb)
      else if b0 = 0xF4 then (locb, 0x8F)
      else (locb, hicb))"

definition seqLen :: "nat \<Rightarrow> nat" where
  "seqLen b0 =
     (if b0 < 0x80 then 1
      else if 0xC2 \<le> b0 \<and> b0 \<le> 0xDF then 2
      else if 0xE0 \<le> b0 \<and> b0 \<le> 0xEF then 3
      else if 0xF0 \<le> b0 \<and> b0 \<le> 0xF4 then 4
      else 0)"

definition DecodeRune :: "nat list \<Rightarrow> rune \<times> nat" where
  "DecodeRune s =
     (case s of
        [] \<Rightarrow> (RuneError, 0)
      | s0 # t \<Rightarrow>
          let sz = seqLen s0; (lo, hi) = acceptRange s0 in
          if sz = 1 then (int s0, 1)
          else if sz = 0 then (RuneError, 1)
          else if length s < sz then (RuneError, 1)
          else
            let s1 = t ! 0 in
            if s1 < lo \<or> hi < s1 then (RuneError, 1)
            else if sz \<le> 2 then (int ((s0 mod 0x20) * 0x40 + s1 mod 0x40), 2)
            else
              let s2 = t ! 1 in
              if s2 < locb \<or> hicb < s2 then (RuneError, 1)
              else if sz \<le> 3 then
                (int ((s0 mod 0x10) * 0x1000 + (s1 mod 0x40) * 0x40 + s2 mod 0x40), 3)
              else
                let s3 = t ! 2 in
                if s3 < locb \<or> hicb < s3 then (RuneError, 1)
                else (int ((s0 mod 0x08) * 0x40000 + (s1 mod 0x40) * 0x1000
                            + (s2 mod 0x40) * 0x40 + s3 mod 0x40), 4))"

text \<open>The runes a \<^verbatim>\<open>range\<close> loop over the string visits, in order.\<close>

function decodeAll :: "nat list \<Rightarrow> rune list" where
  "decodeAll s =
     (if s = [] then []
      else fst (DecodeRune s) # decodeAll (drop (max 1 (snd (DecodeRune s))) s))"
  by pat_completeness auto
termination
  by (relation "measure length") auto

definition runes :: "string \<Rightarrow> rune list" where
  "runes s = decodeAll (map byte s)"

text \<open>
  \<^verbatim>\<open>utf8.AppendRune\<close>, which \<^verbatim>\<open>strings.Builder.WriteRune\<close> calls: a surrogate or a
  value outside the Unicode range is written as \<^term>\<open>RuneError\<close>.
\<close>

definition chr :: "nat \<Rightarrow> char" where
  "chr n = char_of n"

definition encodeRune :: "rune \<Rightarrow> string" where
  "encodeRune r =
     (let r' = (if r < 0 \<or> 0x10FFFF < r \<or> (0xD800 \<le> r \<and> r \<le> 0xDFFF) then RuneError else r);
          n = nat r' in
      if n < 0x80 then [chr n]
      else if n < 0x800 then [chr (0xC0 + n div 0x40), chr (0x80 + n mod 0x40)]
      else if n < 0x10000 then
        [chr (0xE0 + n div 0x1000), chr (0x80 + (n div 0x40) mod 0x40), chr (0x80 + n mod 0x40)]
      else
        [chr (0xF0 + n div 0x40000), chr (0x80 + (n div 0x1000) mod 0x40),
         chr (0x80 + (n div 0x40) mod 0x40), chr (0x80 + n mod 0x40)])"

subsection \<open>The \<^verbatim>\<open>unicode\<close> package's predicates\<close>

text \<open>
  Each predicate of the standard library answers for Latin-1 from a fixed table and
  otherwise from a range table of the Unicode database. The decimal digits (category Nd)
  and the white space table are written out; the letters beyond Latin-1 (category L,
  several hundred ranges) are a parameter of validation.
\<close>

definition in_ranges :: "(int \<times> int) list \<Rightarrow> rune \<Rightarrow> bool" where
  "in_ranges tab r = list_ex (\<lambda>(lo, hi). lo \<le> r \<and> r \<le> hi) tab"

definition unicode_Nd :: "(int \<times> int) list" where
  "unicode_Nd =
     [(0x0030, 0x0039), (0x0660, 0x0669), (0x06F0, 0x06F9), (0x07C0, 0x07C9),
      (0x0966, 0x096F), (0x09E6, 0x09EF), (0x0A66, 0x0A6F), (0x0AE6, 0x0AEF),
      (0x0B66, 0x0B6F), (0x0BE6, 0x0BEF), (0x0C66, 0x0C6F), (0x0CE6, 0x0CEF),
      (0x0D66, 0x0D6F), (0x0DE6, 0x0DEF), (0x0E50, 0x0E59), (0x0ED0, 0x0ED9),
      (0x0F20, 0x0F29), (0x1040, 0x1049), (0x1090, 0x1099), (0x17E0, 0x17E9),
      (0x1810, 0x1819), (0x1946, 0x194F), (0x19D0, 0x19D9), (0x1A80, 0x1A89),
      (0x1A90, 0x1A99), (0x1B50, 0x1B59), (0x1BB0, 0x1BB9), (0x1C40, 0x1C49),
      (0x1C50, 0x1C59), (0xA620, 0xA629), (0xA8D0, 0xA8D9), (0xA900, 0xA909),
      (0xA9D0, 0xA9D9), (0xA9F0, 0xA9F9), (0xAA50, 0xAA59), (0xABF0, 0xABF9),
      (0xFF10, 0xFF19),
      (0x104A0, 0x104A9), (0x10D30, 0x10D39), (0x11066, 0x1106F), (0x110F0, 0x110F9),
      (0x11136, 0x1113F), (0x111D0, 0x111D9), (0x112F0, 0x112F9), (0x11450, 0x11459),
      (0x114D0, 0x114D9), (0x11650, 0x11659), (0x116C0, 0x116C9), (0x11730, 0x11739),
      (0x118E0, 0x118E9), (0x11950, 0x11959), (0x11C50, 0x11C59), (0x11D50, 0x11D59),
      (0x11DA0, 0x11DA9), (0x11F50, 0x11F59), (0x16A60, 0x16A69), (0x16AC0, 0x16AC9),
      (0x16B50, 0x16B59), (0x1D7CE, 0x1D7FF), (0x1E140, 0x1E149), (0x1E2F0, 0x1E2F9),
      (0x1E4F0, 0x1E4F9), (0x1E950, 0x1E959), (0x1FBF0, 0x1FBF9)]"

definition unicode_White_Space :: "(int \<times> int) list" where
  "unicode_White_Space =
     [(0x0009, 0x000D), (0x0020, 0x0020), (0x0085, 0x0085), (0x00A0, 0x00A0),
      (0x1680, 0x1680), (0x2000, 0x200A), (0x2028, 0x2029), (0x202F, 0x202F),
      (0x205F, 0x205F), (0x3000, 0x3000)]"

definition IsDigit :: "rune \<Rightarrow> bool" where
  "IsDigit r = (if r \<le> MaxLatin1 then 0x30 \<le> r \<and> r \<le> 0x39 else in_ranges unicode_Nd r)"

definition IsSpace :: "rune \<Rightarrow> bool" where
  "IsSpace r =
     (if 0 \<le> r \<and> r \<le> MaxLatin1
      then r \<in> {0x09, 0x0A, 0x0B, 0x0C, 0x0D, 0x20, 0x85, 0xA0}
      else in_ranges unicode_White_Space r)"

text \<open>
  \<^verbatim>\<open>unicode.IsLetter\<close>. \<open>L\<close> is the range table \<^verbatim>\<open>unicode.Letter\<close> beyond Latin-1;
  the Latin-1 letters are those of the library's property table.
\<close>

definition IsLetter :: "(rune \<Rightarrow> bool) \<Rightarrow> rune \<Rightarrow> bool" where
  "IsLetter L r =
     (if 0 \<le> r \<and> r \<le> MaxLatin1
      then (0x41 \<le> r \<and> r \<le> 0x5A) \<or> (0x61 \<le> r \<and> r \<le> 0x7A) \<or> r = 0xAA \<or> r = 0xB5
           \<or> r = 0xBA \<or> (0xC0 \<le> r \<and> r \<le> 0xD6) \<or> (0xD8 \<le> r \<and> r \<le> 0xF6)
           \<or> (0xF8 \<le> r \<and> r \<le> 0xFF)
      else L r)"

text \<open>
  \<^verbatim>\<open>strings.TrimSpace(s) == ""\<close>: trimming leaves nothing exactly when every rune of
  the string is white space (an ill-formed byte decodes to \<^term>\<open>RuneError\<close>, which is
  not).
\<close>

definition TrimSpace_empty :: "string \<Rightarrow> bool" where
  "TrimSpace_empty s = list_all IsSpace (runes s)"

section \<open>Formatting integers (\<^verbatim>\<open>fmt\<close>'s \<^verbatim>\<open>%d\<close>, \<^verbatim>\<open>%010d\<close>, \<^verbatim>\<open>%02X\<close>)\<close>

definition digit_char :: "nat \<Rightarrow> char" where
  "digit_char d = chr (0x30 + d)"

fun nat_digits :: "nat \<Rightarrow> string" where
  "nat_digits n = (if n < 10 then [digit_char n] else nat_digits (n div 10) @ [digit_char (n mod 10)])"

definition itoa :: "int \<Rightarrow> string" where
  "itoa i = (if i < 0 then CHR ''-'' # nat_digits (nat (- i)) else nat_digits (nat i))"

definition pad0 :: "nat \<Rightarrow> string \<Rightarrow> string" where
  "pad0 w s = replicate (w - length s) CHR ''0'' @ s"

text \<open>\<^verbatim>\<open>%010d\<close> of an integer: zeros between the sign and the digits up to width 10.\<close>

definition fmt_010d :: "int \<Rightarrow> string" where
  "fmt_010d i = (if i < 0 then CHR ''-'' # pad0 9 (nat_digits (nat (- i))) else pad0 10 (nat_digits (nat i)))"

definition hex_char :: "nat \<Rightarrow> char" where
  "hex_char d = (if d < 10 then chr (0x30 + d) else chr (0x41 + (d - 10)))"

definition fmt_02X :: "8 word \<Rightarrow> string" where
  "fmt_02X b = [hex_char (unat b div 16), hex_char (unat b mod 16)]"

section \<open>\<^verbatim>\<open>float64\<close>\<close>

text \<open>
  An IEEE 754 binary64 value: a finite number \<open>(-1)\<^sup>s \<sqdot> m \<sqdot> 2\<^sup>e\<close> with sign \<open>s\<close>,
  significand \<open>m < 2\<^sup>5\<^sup>3\<close> and exponent \<open>-1074 \<le> e \<le> 971\<close> (a zero is \<open>m = 0\<close>
  and carries its sign), an infinity with its sign, or a NaN. Every operation computes the
  exact result and rounds it once to the nearest value, ties to the even significand, as
  the hardware instruction does; a result beyond the largest finite value is an infinity.
  The compiler is taken not to fuse a multiplication and an addition into one rounding.
\<close>

datatype float64 = Finite bool nat int | Infinity bool | NaN

definition fzero :: float64 where
  "fzero = Finite False 0 (-1074)"

fun bitlen :: "nat \<Rightarrow> nat" where
  "bitlen n = (if n = 0 then 0 else Suc (bitlen (n div 2)))"

text \<open>\<open>\<lfloor>log\<^sub>2 (p / q)\<rfloor>\<close> for positive \<open>p\<close> and \<open>q\<close>.\<close>

definition floor_log2 :: "nat \<Rightarrow> nat \<Rightarrow> int" where
  "floor_log2 p q =
     (let k = int (bitlen p) - int (bitlen q) in
      if q * 2 ^ nat k \<le> p * 2 ^ nat (- k) then k else k - 1)"

definition round_half_even :: "nat \<Rightarrow> nat \<Rightarrow> nat" where
  "round_half_even num den =
     (let q = num div den; r = num mod den in
      if den < 2 * r \<or> (2 * r = den \<and> odd q) then q + 1 else q)"

text \<open>The binary64 value nearest to \<open>(-1)\<^sup>s \<sqdot> p / q\<close>, for \<open>q > 0\<close>.\<close>

definition round_ratio :: "bool \<Rightarrow> nat \<Rightarrow> nat \<Rightarrow> float64" where
  "round_ratio s p q =
     (if p = 0 then Finite s 0 (-1074)
      else
        let e = max (floor_log2 p q - 52) (-1074);
            m = round_half_even (p * 2 ^ nat (- e)) (q * 2 ^ nat e);
            e' = (if m = 2 ^ 53 then e + 1 else e);
            m' = (if m = 2 ^ 53 then 2 ^ 52 else m)
        in if 971 < e' then Infinity s
           else if m' = 0 then Finite s 0 (-1074)
           else Finite s m' e')"

definition round_scaled :: "bool \<Rightarrow> nat \<Rightarrow> int \<Rightarrow> float64" where
  "round_scaled s m e = round_ratio s (m * 2 ^ nat e) (2 ^ nat (- e))"

definition sval :: "bool \<Rightarrow> nat \<Rightarrow> int" where
  "sval s m = (if s then - int m else int m)"

fun fneg :: "float64 \<Rightarrow> float64" where
  "fneg (Finite s m e) = Finite (\<not> s) m e"
| "fneg (Infinity s) = Infinity (\<not> s)"
| "fneg NaN = NaN"

fun fmul :: "float64 \<Rightarrow> float64 \<Rightarrow> float64" where
  "fmul NaN y = NaN"
| "fmul x NaN = NaN"
| "fmul (Infinity s) (Infinity t) = Infinity (s \<noteq> t)"
| "fmul (Infinity s) (Finite t m e) = (if m = 0 then NaN else Infinity (s \<noteq> t))"
| "fmul (Finite t m e) (Infinity s) = (if m = 0 then NaN else Infinity (t \<noteq> s))"
| "fmul (Finite s1 m1 e1) (Finite s2 m2 e2) = round_scaled (s1 \<noteq> s2) (m1 * m2) (e1 + e2)"

fun fadd :: "float64 \<Rightarrow> float64 \<Rightarrow> float64" where
  "fadd NaN y = NaN"
| "fadd x NaN = NaN"
| "fadd (Infinity s) (Infinity t) = (if s = t then Infinity s else NaN)"
| "fadd (Infinity s) (Finite t m e) = Infinity s"
| "fadd (Finite t m e) (Infinity s) = Infinity s"
| "fadd (Finite s1 m1 e1) (Finite s2 m2 e2) =
     (if m1 = 0 \<and> m2 = 0 then Finite (s1 \<and> s2) 0 (-1074)
      else if m2 = 0 then Finite s1 m1 e1
      else if m1 = 0 then Finite s2 m2 e2
      else
        let em = min e1 e2;
            v = sval s1 (m1 * 2 ^ nat (e1 - em)) + sval s2 (m2 * 2 ^ nat (e2 - em))
        in if v = 0 then Finite False 0 (-1074) else round_scaled (v < 0) (nat \<bar>v\<bar>) em)"

definition fsub :: "float64 \<Rightarrow> float64 \<Rightarrow> float64" where
  "fsub x y = fadd x (fneg y)"

fun fdiv :: "float64 \<Rightarrow> float64 \<Rightarrow> float64" where
  "fdiv NaN y = NaN"
| "fdiv x NaN = NaN"
| "fdiv (Infinity s) (Infinity t) = NaN"
| "fdiv (Infinity s) (Finite t m e) = Infinity (s \<noteq> t)"
| "fdiv (Finite s m e) (Infinity t) = Finite (s \<noteq> t) 0 (-1074)"
| "fdiv (Finite s1 m1 e1) (Finite s2 m2 e2) =
     (if m2 = 0 then (if m1 = 0 then NaN else Infinity (s1 \<noteq> s2))
      else round_ratio (s1 \<noteq> s2) (m1 * 2 ^ nat (e1 - e2)) (m2 * 2 ^ nat (e2 - e1)))"

text \<open>The comparisons \<^verbatim>\<open><\<close> and \<^verbatim>\<open><=\<close>: false when an operand is a NaN; the zeros are equal.\<close>

fun flt :: "float64 \<Rightarrow> float64 \<Rightarrow> bool" where
  "flt NaN y = False"
| "flt x NaN = False"
| "flt (Infinity s) (Infinity t) = (s \<and> \<not> t)"
| "flt (Infinity s) (Finite t m e) = s"
| "flt (Finite t m e) (Infinity s) = (\<not> s)"
| "flt (Finite s1 m1 e1) (Finite s2 m2 e2) =
     (sval s1 (m1 * 2 ^ nat (e1 - min e1 e2)) < sval s2 (m2 * 2 ^ nat (e2 - min e1 e2)))"

fun fle :: "float64 \<Rightarrow> float64 \<Rightarrow> bool" where
  "fle NaN y = False"
| "fle x NaN = False"
| "fle (Infinity s) (Infinity t) = (s \<or> \<not> t)"
| "fle (Infinity s) (Finite t m e) = s"
| "fle (Finite t m e) (Infinity s) = (\<not> s)"
| "fle (Finite s1 m1 e1) (Finite s2 m2 e2) =
     (sval s1 (m1 * 2 ^ nat (e1 - min e1 e2)) \<le> sval s2 (m2 * 2 ^ nat (e2 - min e1 e2)))"

text \<open>The \<^verbatim>\<open>==\<close> of the language on \<^verbatim>\<open>float64\<close>.\<close>

definition feq :: "float64 \<Rightarrow> float64 \<Rightarrow> bool" where
  "feq x y = (fle x y \<and> fle y x)"

text \<open>
  Constants and conversions: \<open>float64_of_int\<close> is \<^verbatim>\<open>float64(i)\<close>, and
  \<open>float64_lit m k\<close> is the decimal literal \<open>m \<sqdot> 10\<^sup>-\<^sup>k\<close> (\<^verbatim>\<open>595.28\<close> is
  \<open>float64_lit 59528 2\<close>), both rounded to the nearest value.
\<close>

definition float64_lit :: "int \<Rightarrow> nat \<Rightarrow> float64" where
  "float64_lit m k = round_ratio (m < 0) (nat \<bar>m\<bar>) (10 ^ k)"

definition float64_of_int :: "int \<Rightarrow> float64" where
  "float64_of_int i = float64_lit i 0"

text \<open>
  \<^verbatim>\<open>int(x)\<close> drops the fraction. Where the value does not fit 64 bits (or is no
  number) the language leaves the result to the implementation; the model takes the
  amd64 result, \<open>-2\<^sup>6\<^sup>3\<close>.
\<close>

definition int_of_float64 :: "float64 \<Rightarrow> int" where
  "int_of_float64 x =
     (case x of
        Finite s m e \<Rightarrow>
          let v = sval s (m * 2 ^ nat e div 2 ^ nat (- e)) in
          if - (2 ^ 63) \<le> v \<and> v < 2 ^ 63 then v else - (2 ^ 63)
      | _ \<Rightarrow> - (2 ^ 63))"

text \<open>
  \<^verbatim>\<open>fmt.Sprintf("%.Nf", x)\<close>: the exact decimal expansion of the value, rounded to
  \<open>N\<close> fraction digits, ties to even.
\<close>

definition fmt_f :: "nat \<Rightarrow> float64 \<Rightarrow> string" where
  "fmt_f prec x =
     (case x of
        NaN \<Rightarrow> ''NaN''
      | Infinity s \<Rightarrow> (if s then ''-Inf'' else ''+Inf'')
      | Finite s m e \<Rightarrow>
          let n = round_half_even (m * 10 ^ prec * 2 ^ nat e) (2 ^ nat (- e)) in
          (if s then ''-'' else []) @ nat_digits (n div 10 ^ prec)
          @ (if prec = 0 then [] else ''.'' @ pad0 prec (nat_digits (n mod 10 ^ prec))))"

declare bitlen.simps [simp del]
declare nat_digits.simps [simp del]
declare decodeAll.simps [simp del]

section \<open>The invoice data model (\<^verbatim>\<open>facturx.go\<close>)\<close>

datatype vatKind = vatStandard | vatFranchiseAuto | vatExemptHealth

record VatRegime =
  kind :: vatKind
  rate :: float64
  categoryCode :: string
  exemptionCode :: string
  exemptionText :: string

definition VatStandard :: "float64 \<Rightarrow> VatRegime" where
  "VatStandard r =
     \<lparr>kind = vatStandard, rate = r, categoryCode = ''S'', exemptionCode = [], exemptionText = []\<rparr>"

definition VatFranchiseAuto :: VatRegime where
  "VatFranchiseAuto =
     \<lparr>kind = vatFranchiseAuto, rate = float64_of_int 0, categoryCode = ''E'',
      exemptionCode = ''VATEX-FR-FRANCHISE'',
      exemptionText = ''TVA non applicable, art. 293 B du CGI''\<rparr>"

text \<open>The exemption text holds \<open>U+00E9\<close> and \<open>U+00B0\<close>, two bytes each in the source file.\<close>

definition VatExemptHealth :: VatRegime where
  "VatExemptHealth =
     \<lparr>kind = vatExemptHealth, rate = float64_of_int 0, categoryCode = ''E'',
      exemptionCode = ''VATEX-EU-O'',
      exemptionText = ''Exon'' @ [CHR 0xC3, CHR 0xA9] @ ''ration de TVA, art. 261-4-1''
                      @ [CHR 0xC2, CHR 0xB0] @ '' du CGI''\<rparr>"

record ProfessionalId =
  Type :: string
  Value :: string

record Contact =
  Name :: string
  Address :: string
  ZipCode :: string
  City :: string
  CountryCode :: string
  Siret :: string
  VatNumber :: string
  ProfessionalIds :: "ProfessionalId list"

text \<open>
  The fields \<^verbatim>\<open>Date\<close> of \<^verbatim>\<open>Payment\<close> and of \<^verbatim>\<open>InvoiceLine\<close> are named
  \<open>PaymentDate\<close> and \<open>LineDate\<close>, apart from the request's \<open>Date\<close>.
\<close>

record Payment =
  PaymentDate :: string
  Method :: string

record InvoiceLine =
  Description :: string
  Quantity :: float64
  UnitPrice :: float64
  LineDate :: string

record InvoiceRequest =
  Number :: string
  Date :: string
  Seller :: Contact
  Buyer :: Contact
  Lines :: "InvoiceLine list"
  Regime :: VatRegime
  AddEISuffix :: bool
  CustomMentions :: string
  Payment :: "Payment option"

record ValidationError =
  Field :: string
  Message :: string

section \<open>Validation\<close>

text \<open>
  \<^verbatim>\<open>validateSiretLuhn\<close>: the loop over the positions 0 to 13. \<^verbatim>\<open>siret[i] - '0'\<close>
  is a subtraction of bytes, which wraps, and \<^verbatim>\<open>siret[i]\<close> panics beyond the string's
  end.
\<close>

function validateSiretLuhn_loop :: "string \<Rightarrow> nat \<Rightarrow> int \<Rightarrow> int option" where
  "validateSiretLuhn_loop siret i acc =
     (if i < 14 then
        do {
          c \<leftarrow> index siret i;
          let digit = uint ((of_char c :: 8 word) - 0x30);
          let digit = (if i mod 2 = 1 then (if 9 < digit * 2 then digit * 2 - 9 else digit * 2) else digit);
          validateSiretLuhn_loop siret (i + 1) (acc + digit)
        }
      else Some acc)"
  by pat_completeness auto
termination
  by (relation "measure (\<lambda>(siret, i, acc). 14 - i)") auto

declare validateSiretLuhn_loop.simps [simp del]

definition validateSiretLuhn :: "string \<Rightarrow> bool option" where
  "validateSiretLuhn siret = do { acc \<leftarrow> validateSiretLuhn_loop siret 0 0; Some (acc mod 10 = 0) }"

text \<open>
  The checksum as the specification words it: over the positions 0 to 13, the digit,
  doubled at an odd position, less 9 when the doubled value exceeds 9; valid when the sum
  is divisible by 10.
\<close>

definition digit_value :: "char \<Rightarrow> nat" where
  "digit_value c = byte c - 0x30"

definition luhn_transform :: "nat \<Rightarrow> nat \<Rightarrow> nat" where
  "luhn_transform i d = (if odd i then (if 9 < 2 * d then 2 * d - 9 else 2 * d) else d)"

definition luhn_sum_spec :: "string \<Rightarrow> nat" where
  "luhn_sum_spec s = (\<Sum>i \<leftarrow> [0..<14]. luhn_transform i (digit_value (s ! i)))"

definition ascii_digit :: "char \<Rightarrow> bool" where
  "ascii_digit c = (0x30 \<le> byte c \<and> byte c \<le> 0x39)"

definition parseInt :: "string \<Rightarrow> int" where
  "parseInt s = foldl (\<lambda>n c. n * 10 + (c - 0x30)) 0 (runes s)"

definition validateContact ::
  "(rune \<Rightarrow> bool) \<Rightarrow> Contact \<Rightarrow> string \<Rightarrow> bool \<Rightarrow> ValidationError option option" where
  "validateContact L c prefix requireSiret =
     do {
       siretErr \<leftarrow>
         (if Siret c \<noteq> [] \<or> requireSiret then
            if length (Siret c) \<noteq> 14 then
              Some (Some \<lparr>Field = prefix @ ''.Siret'', Message = ''SIRET must be 14 digits''\<rparr>)
            else if \<not> list_all IsDigit (runes (Siret c)) then
              Some (Some \<lparr>Field = prefix @ ''.Siret'', Message = ''SIRET must contain only digits''\<rparr>)
            else
              do {
                ok \<leftarrow> validateSiretLuhn (Siret c);
                Some (if \<not> ok
                      then Some \<lparr>Field = prefix @ ''.Siret'', Message = ''SIRET checksum invalid (Luhn)''\<rparr>
                      else None)
              }
          else Some None);
       Some (case siretErr of
               Some e \<Rightarrow> Some e
             | None \<Rightarrow>
                 if length (CountryCode c) \<noteq> 2 then
                   Some \<lparr>Field = prefix @ ''.CountryCode'', Message = ''country code must be 2 letters''\<rparr>
                 else if \<not> list_all (IsLetter L) (runes (CountryCode c)) then
                   Some \<lparr>Field = prefix @ ''.CountryCode'',
                         Message = ''country code must contain only letters''\<rparr>
                 else None)
     }"

text \<open>The loop over the lines, with the index that names the field.\<close>

fun validateLines :: "nat \<Rightarrow> InvoiceLine list \<Rightarrow> ValidationError option" where
  "validateLines i [] = None"
| "validateLines i (line # rest) =
     (if fle (Quantity line) (float64_of_int 0) then
        Some \<lparr>Field = ''Lines['' @ itoa (int i) @ ''].Quantity'', Message = ''quantity must be positive''\<rparr>
      else if flt (UnitPrice line) (float64_of_int 0) then
        Some \<lparr>Field = ''Lines['' @ itoa (int i) @ ''].UnitPrice'',
              Message = ''unit price cannot be negative''\<rparr>
      else validateLines (i + 1) rest)"

definition validate :: "(rune \<Rightarrow> bool) \<Rightarrow> InvoiceRequest \<Rightarrow> ValidationError option option" where
  "validate L req =
     (if TrimSpace_empty (Number req) then
        Some (Some \<lparr>Field = ''Number'', Message = ''invoice number cannot be empty''\<rparr>)
      else if length (Date req) \<noteq> 8 then
        Some (Some \<lparr>Field = ''Date'', Message = ''date must be in YYYYMMDD format''\<rparr>)
      else if \<not> list_all IsDigit (runes (Date req)) then
        Some (Some \<lparr>Field = ''Date'', Message = ''date must contain only digits''\<rparr>)
      else
        do {
          y \<leftarrow> slice (Date req) 0 4;
          m \<leftarrow> slice (Date req) 4 6;
          d \<leftarrow> slice (Date req) 6 8;
          let year = parseInt y; month = parseInt m; day = parseInt d in
          if year < 2000 \<or> 2100 < year \<or> month < 1 \<or> 12 < month \<or> day < 1 \<or> 31 < day then
            Some (Some \<lparr>Field = ''Date'', Message = ''invalid date values''\<rparr>)
          else if length (Lines req) = 0 then
            Some (Some \<lparr>Field = ''Lines'', Message = ''invoice must have at least one line''\<rparr>)
          else
            case validateLines 0 (Lines req) of
              Some e \<Rightarrow> Some (Some e)
            | None \<Rightarrow>
                if TrimSpace_empty (Name (Seller req)) then
                  Some (Some \<lparr>Field = ''Seller.Name'', Message = ''seller name cannot be empty''\<rparr>)
                else
                  do {
                    sellerErr \<leftarrow> validateContact L (Seller req) ''Seller'' True;
                    case sellerErr of
                      Some e \<Rightarrow> Some (Some e)
                    | None \<Rightarrow>
                        if TrimSpace_empty (Name (Buyer req)) then
                          Some (Some \<lparr>Field = ''Buyer.Name'', Message = ''buyer name cannot be empty''\<rparr>)
                        else
                          do {
                            buyerErr \<leftarrow> validateContact L (Buyer req) ''Buyer'' False;
                            case buyerErr of
                              Some e \<Rightarrow> Some (Some e)
                            | None \<Rightarrow>
                                if kind (Regime req) = vatStandard
                                   \<and> flt (rate (Regime req)) (float64_of_int 0) then
                                  Some (Some \<lparr>Field = ''Regime'', Message = ''VAT rate cannot be negative''\<rparr>)
                                else Some None
                          }
                  }
        })"

text \<open>The request of the package's tests (\<^verbatim>\<open>sampleRequest\<close>).\<close>

definition sampleRequest :: InvoiceRequest where
  "sampleRequest =
     \<lparr>Number = ''FA-2024-001'', Date = ''20240115'',
      Seller = \<lparr>Name = ''ACME Corp'', Address = ''123 Rue de Paris'', ZipCode = ''75001'',
                City = ''Paris'', CountryCode = ''FR'', Siret = ''12345678900006'',
                VatNumber = ''FR12345678901'', ProfessionalIds = []\<rparr>,
      Buyer = \<lparr>Name = ''Client SA'', Address = ''456 Avenue des Champs'', ZipCode = ''69001'',
               City = ''Lyon'', CountryCode = ''FR'', Siret = ''98765432100006'',
               VatNumber = ''FR98765432109'', ProfessionalIds = []\<rparr>,
      Lines = [\<lparr>Description = ''Prestation de conseil'', Quantity = float64_of_int 10,
                UnitPrice = float64_of_int 100, LineDate = []\<rparr>],
      Regime = VatStandard (float64_of_int 20), AddEISuffix = False, CustomMentions = [],
      Payment = None\<rparr>"

definition badSiretRequest :: InvoiceRequest where
  "badSiretRequest = sampleRequest\<lparr>Seller := (Seller sampleRequest)\<lparr>Siret := ''12345678901234''\<rparr>\<rparr>"

section \<open>The invoice XML (\<^verbatim>\<open>xml.go\<close>)\<close>

text \<open>
  A function that writes to a \<^verbatim>\<open>strings.Builder\<close> is modelled by the text it appends;
  the caller concatenates the texts in the order of the calls.
\<close>

definition profileURN :: string where
  "profileURN = ''urn:cen.eu:en16931:2017#compliant#urn:factur-x.eu:1p0:basic''"

definition nsRSM :: string where
  "nsRSM = ''urn:un:unece:uncefact:data:standard:CrossIndustryInvoice:100''"

definition nsRAM :: string where
  "nsRAM = ''urn:un:unece:uncefact:data:standard:ReusableAggregateBusinessInformationEntity:100''"

definition nsUDT :: string where
  "nsUDT = ''urn:un:unece:uncefact:data:standard:UnqualifiedDataType:100''"

definition nsQDT :: string where
  "nsQDT = ''urn:un:unece:uncefact:data:standard:QualifiedDataType:100''"

text \<open>The body of \<^verbatim>\<open>escapeXML\<close>'s loop, for one rune of the input.\<close>

definition escapeXML_rune :: "rune \<Rightarrow> string" where
  "escapeXML_rune c =
     (if c = 0x26 then ''&amp;''
      else if c = 0x3C then ''&lt;''
      else if c = 0x3E then ''&gt;''
      else if c = 0x22 then ''&quot;''
      else if c = 0x27 then ''&apos;''
      else encodeRune c)"

definition escapeXML :: "string \<Rightarrow> string" where
  "escapeXML s = concat (map escapeXML_rune (runes s))"

definition fmtAmount :: "float64 \<Rightarrow> string" where
  "fmtAmount v = fmt_f 2 v"

definition fmtPrice :: "float64 \<Rightarrow> string" where
  "fmtPrice v = fmt_f 4 v"

definition fmtQuantity :: "float64 \<Rightarrow> string" where
  "fmtQuantity v = fmt_f 4 v"

record invoiceCalculation =
  lineTotal :: float64
  taxBase :: float64
  taxTotal :: float64
  grandTotal :: float64
  dueAmount :: float64
  vatRate :: float64
  vatCategoryCode :: string
  vatExemptionCode :: string
  vatExemptionText :: string

text \<open>The sum of the line amounts, accumulated from zero in the order of the lines.\<close>

definition sumLines :: "InvoiceLine list \<Rightarrow> float64" where
  "sumLines ls = foldl (\<lambda>acc line. fadd acc (fmul (Quantity line) (UnitPrice line))) fzero ls"

definition calculateInvoice :: "InvoiceRequest \<Rightarrow> invoiceCalculation" where
  "calculateInvoice req =
     (let lineTotal = sumLines (Lines req);
          taxBase = lineTotal;
          vatRate = rate (Regime req);
          vatCategoryCode = categoryCode (Regime req);
          vatExemptionCode = exemptionCode (Regime req);
          vatExemptionText = exemptionText (Regime req);
          taxTotal = fdiv (fmul taxBase vatRate) (float64_lit 100 0);
          grandTotal = fadd taxBase taxTotal;
          dueAmount = grandTotal
      in \<lparr>lineTotal = lineTotal, taxBase = taxBase, taxTotal = taxTotal, grandTotal = grandTotal,
          dueAmount = dueAmount, vatRate = vatRate, vatCategoryCode = vatCategoryCode,
          vatExemptionCode = vatExemptionCode, vatExemptionText = vatExemptionText\<rparr>)"

definition writeDocumentContext :: string where
  "writeDocumentContext =
     ''  <rsm:ExchangedDocumentContext>\<newline>''
     @ ''    <ram:BusinessProcessSpecifiedDocumentContextParameter>\<newline>''
     @ ''      <ram:ID>A1</ram:ID>\<newline>''
     @ ''    </ram:BusinessProcessSpecifiedDocumentContextParameter>\<newline>''
     @ ''    <ram:GuidelineSpecifiedDocumentContextParameter>\<newline>''
     @ ''      <ram:ID>'' @ profileURN @ ''</ram:ID>\<newline>''
     @ ''    </ram:GuidelineSpecifiedDocumentContextParameter>\<newline>''
     @ ''  </rsm:ExchangedDocumentContext>\<newline>''"

definition writeExchangedDocument :: "InvoiceRequest \<Rightarrow> string" where
  "writeExchangedDocument req =
     ''  <rsm:ExchangedDocument>\<newline>''
     @ ''    <ram:ID>'' @ escapeXML (Number req) @ ''</ram:ID>\<newline>''
     @ ''    <ram:TypeCode>380</ram:TypeCode>\<newline>''
     @ ''    <ram:IssueDateTime>\<newline>''
     @ ''      <udt:DateTimeString format=\"102\">'' @ escapeXML (Date req)
     @ ''</udt:DateTimeString>\<newline>''
     @ ''    </ram:IssueDateTime>\<newline>''
     @ ''  </rsm:ExchangedDocument>\<newline>''"

definition writeLineItem :: "InvoiceLine \<Rightarrow> int \<Rightarrow> invoiceCalculation \<Rightarrow> string" where
  "writeLineItem line lineNum calc =
     (let lineAmount = fmul (Quantity line) (UnitPrice line) in
      ''    <ram:IncludedSupplyChainTradeLineItem>\<newline>''
      @ ''      <ram:AssociatedDocumentLineDocument>\<newline>''
      @ ''        <ram:LineID>'' @ itoa lineNum @ ''</ram:LineID>\<newline>''
      @ ''      </ram:AssociatedDocumentLineDocument>\<newline>''
      @ ''      <ram:SpecifiedTradeProduct>\<newline>''
      @ ''        <ram:Name>'' @ escapeXML (Description line) @ ''</ram:Name>\<newline>''
      @ ''      </ram:SpecifiedTradeProduct>\<newline>''
      @ ''      <ram:SpecifiedLineTradeAgreement>\<newline>''
      @ ''        <ram:NetPriceProductTradePrice>\<newline>''
      @ ''          <ram:ChargeAmount>'' @ fmtPrice (UnitPrice line) @ ''</ram:ChargeAmount>\<newline>''
      @ ''        </ram:NetPriceProductTradePrice>\<newline>''
      @ ''      </ram:SpecifiedLineTradeAgreement>\<newline>''
      @ ''      <ram:SpecifiedLineTradeDelivery>\<newline>''
      @ ''        <ram:BilledQuantity unitCode=\"C62\">'' @ fmtQuantity (Quantity line)
      @ ''</ram:BilledQuantity>\<newline>''
      @ ''      </ram:SpecifiedLineTradeDelivery>\<newline>''
      @ ''      <ram:SpecifiedLineTradeSettlement>\<newline>''
      @ ''        <ram:ApplicableTradeTax>\<newline>''
      @ ''          <ram:TypeCode>VAT</ram:TypeCode>\<newline>''
      @ ''          <ram:CategoryCode>'' @ vatCategoryCode calc @ ''</ram:CategoryCode>\<newline>''
      @ ''          <ram:RateApplicablePercent>'' @ fmtAmount (vatRate calc)
      @ ''</ram:RateApplicablePercent>\<newline>''
      @ ''        </ram:ApplicableTradeTax>\<newline>''
      @ ''        <ram:SpecifiedTradeSettlementLineMonetarySummation>\<newline>''
      @ ''          <ram:LineTotalAmount>'' @ fmtAmount lineAmount @ ''</ram:LineTotalAmount>\<newline>''
      @ ''        </ram:SpecifiedTradeSettlementLineMonetarySummation>\<newline>''
      @ ''      </ram:SpecifiedLineTradeSettlement>\<newline>''
      @ ''    </ram:IncludedSupplyChainTradeLineItem>\<newline>'')"

definition writeTradeParty :: "Contact \<Rightarrow> string \<Rightarrow> bool \<Rightarrow> string" where
  "writeTradeParty contact elementName addEISuffix =
     (let name = (if addEISuffix then Name contact @ '', Entrepreneur Individuel'' else Name contact) in
      ''      <ram:'' @ elementName @ ''>\<newline>''
      @ ''        <ram:Name>'' @ escapeXML name @ ''</ram:Name>\<newline>''
      @ ''        <ram:SpecifiedLegalOrganization>\<newline>''
      @ ''          <ram:ID schemeID=\"0002\">'' @ escapeXML (Siret contact) @ ''</ram:ID>\<newline>''
      @ ''        </ram:SpecifiedLegalOrganization>\<newline>''
      @ ''        <ram:PostalTradeAddress>\<newline>''
      @ ''          <ram:PostcodeCode>'' @ escapeXML (ZipCode contact) @ ''</ram:PostcodeCode>\<newline>''
      @ ''          <ram:LineOne>'' @ escapeXML (Address contact) @ ''</ram:LineOne>\<newline>''
      @ ''          <ram:CityName>'' @ escapeXML (City contact) @ ''</ram:CityName>\<newline>''
      @ ''          <ram:CountryID>'' @ escapeXML (CountryCode contact) @ ''</ram:CountryID>\<newline>''
      @ ''        </ram:PostalTradeAddress>\<newline>''
      @ (if VatNumber contact \<noteq> [] then
           ''        <ram:SpecifiedTaxRegistration>\<newline>''
           @ ''          <ram:ID schemeID=\"VA\">'' @ escapeXML (VatNumber contact) @ ''</ram:ID>\<newline>''
           @ ''        </ram:SpecifiedTaxRegistration>\<newline>''
         else [])
      @ ''      </ram:'' @ elementName @ ''>\<newline>'')"

definition writeApplicableHeaderTradeAgreement :: "InvoiceRequest \<Rightarrow> string" where
  "writeApplicableHeaderTradeAgreement req =
     ''    <ram:ApplicableHeaderTradeAgreement>\<newline>''
     @ writeTradeParty (Seller req) ''SellerTradeParty'' (AddEISuffix req)
     @ writeTradeParty (Buyer req) ''BuyerTradeParty'' False
     @ ''    </ram:ApplicableHeaderTradeAgreement>\<newline>''"

definition writeApplicableHeaderTradeDelivery :: "string \<Rightarrow> string" where
  "writeApplicableHeaderTradeDelivery date =
     ''    <ram:ApplicableHeaderTradeDelivery>\<newline>''
     @ ''      <ram:ActualDeliverySupplyChainEvent>\<newline>''
     @ ''        <ram:OccurrenceDateTime>\<newline>''
     @ ''          <udt:DateTimeString format=\"102\">'' @ date @ ''</udt:DateTimeString>\<newline>''
     @ ''        </ram:OccurrenceDateTime>\<newline>''
     @ ''      </ram:ActualDeliverySupplyChainEvent>\<newline>''
     @ ''    </ram:ApplicableHeaderTradeDelivery>\<newline>''"

text \<open>The payment terms hold \<open>U+00E0\<close> and \<open>U+00E9\<close>, two bytes each.\<close>

definition writeApplicableHeaderTradeSettlement :: "invoiceCalculation \<Rightarrow> string" where
  "writeApplicableHeaderTradeSettlement calc =
     ''    <ram:ApplicableHeaderTradeSettlement>\<newline>''
     @ ''      <ram:InvoiceCurrencyCode>EUR</ram:InvoiceCurrencyCode>\<newline>''
     @ ''      <ram:ApplicableTradeTax>\<newline>''
     @ ''        <ram:CalculatedAmount>'' @ fmtAmount (taxTotal calc) @ ''</ram:CalculatedAmount>\<newline>''
     @ ''        <ram:TypeCode>VAT</ram:TypeCode>\<newline>''
     @ (if vatExemptionText calc \<noteq> [] then
          ''        <ram:ExemptionReason>'' @ escapeXML (vatExemptionText calc)
          @ ''</ram:ExemptionReason>\<newline>''
        else [])
     @ ''        <ram:BasisAmount>'' @ fmtAmount (taxBase calc) @ ''</ram:BasisAmount>\<newline>''
     @ ''        <ram:CategoryCode>'' @ vatCategoryCode calc @ ''</ram:CategoryCode>\<newline>''
     @ (if vatExemptionCode calc \<noteq> [] then
          ''        <ram:ExemptionReasonCode>'' @ vatExemptionCode calc
          @ ''</ram:ExemptionReasonCode>\<newline>''
        else [])
     @ ''        <ram:RateApplicablePercent>'' @ fmtAmount (vatRate calc)
     @ ''</ram:RateApplicablePercent>\<newline>''
     @ ''      </ram:ApplicableTradeTax>\<newline>''
     @ ''      <ram:SpecifiedTradePaymentTerms>\<newline>''
     @ ''        <ram:Description>Paiement '' @ [CHR 0xC3, CHR 0xA0] @ '' r'' @ [CHR 0xC3, CHR 0xA9]
     @ ''ception de facture</ram:Description>\<newline>''
     @ ''      </ram:SpecifiedTradePaymentTerms>\<newline>''
     @ ''      <ram:SpecifiedTradeSettlementHeaderMonetarySummation>\<newline>''
     @ ''        <ram:LineTotalAmount>'' @ fmtAmount (lineTotal calc) @ ''</ram:LineTotalAmount>\<newline>''
     @ ''        <ram:TaxBasisTotalAmount>'' @ fmtAmount (taxBase calc)
     @ ''</ram:TaxBasisTotalAmount>\<newline>''
     @ ''        <ram:TaxTotalAmount currencyID=\"EUR\">'' @ fmtAmount (taxTotal calc)
     @ ''</ram:TaxTotalAmount>\<newline>''
     @ ''        <ram:GrandTotalAmount>'' @ fmtAmount (grandTotal calc) @ ''</ram:GrandTotalAmount>\<newline>''
     @ ''        <ram:DuePayableAmount>'' @ fmtAmount (dueAmount calc) @ ''</ram:DuePayableAmount>\<newline>''
     @ ''      </ram:SpecifiedTradeSettlementHeaderMonetarySummation>\<newline>''
     @ ''    </ram:ApplicableHeaderTradeSettlement>\<newline>''"

text \<open>The loop over the lines of \<^verbatim>\<open>writeSupplyChainTradeTransaction\<close>: line \<open>i\<close> has the id \<open>i + 1\<close>.\<close>

fun writeLineItems :: "nat \<Rightarrow> InvoiceLine list \<Rightarrow> invoiceCalculation \<Rightarrow> string" where
  "writeLineItems i [] calc = []"
| "writeLineItems i (line # rest) calc =
     writeLineItem line (int i + 1) calc @ writeLineItems (i + 1) rest calc"

definition writeSupplyChainTradeTransaction :: "InvoiceRequest \<Rightarrow> invoiceCalculation \<Rightarrow> string" where
  "writeSupplyChainTradeTransaction req calc =
     ''  <rsm:SupplyChainTradeTransaction>\<newline>''
     @ writeLineItems 0 (Lines req) calc
     @ writeApplicableHeaderTradeAgreement req
     @ writeApplicableHeaderTradeDelivery (Date req)
     @ writeApplicableHeaderTradeSettlement calc
     @ ''  </rsm:SupplyChainTradeTransaction>\<newline>''"

definition generateCIIXML :: "InvoiceRequest \<Rightarrow> string" where
  "generateCIIXML req =
     (let calc = calculateInvoice req in
      ''<?xml version=\"1.0\" encoding=\"UTF-8\"?>'' @ ''\<newline>''
      @ ''<rsm:CrossIndustryInvoice xmlns:rsm=\"'' @ nsRSM @ ''\" xmlns:ram=\"'' @ nsRAM
      @ ''\" xmlns:udt=\"'' @ nsUDT @ ''\" xmlns:qdt=\"'' @ nsQDT @ ''\">'' @ ''\<newline>''
      @ writeDocumentContext
      @ writeExchangedDocument req
      @ writeSupplyChainTradeTransaction req calc
      @ ''</rsm:CrossIndustryInvoice>\<newline>'')"

section \<open>The totals of the visual page (\<^verbatim>\<open>pdf.go\<close>)\<close>

text \<open>
  \<^verbatim>\<open>calculateTotals\<close> returns the five strings \<^verbatim>\<open>lineTotal\<close>, \<^verbatim>\<open>taxTotal\<close>,
  \<^verbatim>\<open>grandTotal\<close>, \<^verbatim>\<open>vatRate\<close> and \<^verbatim>\<open>vatText\<close>, in this order.
\<close>

definition calculateTotals :: "InvoiceRequest \<Rightarrow> string \<times> string \<times> string \<times> string \<times> string" where
  "calculateTotals req =
     (let lineTotalVal = sumLines (Lines req);
          (vatRateVal, vatTextVal) =
            (case kind (Regime req) of
               vatFranchiseAuto \<Rightarrow> (float64_of_int 0, ''TVA non applicable, art. 293 B du CGI'')
             | vatExemptHealth \<Rightarrow>
                 (float64_of_int 0,
                  ''Exon'' @ [CHR 0xC3, CHR 0xA9] @ ''ration de TVA, art. 261-4-1''
                  @ [CHR 0xC2, CHR 0xB0] @ '' du CGI'')
             | vatStandard \<Rightarrow> (rate (Regime req), ''TVA '' @ fmt_f 0 (rate (Regime req)) @ ''%''));
          taxTotalVal = fdiv (fmul lineTotalVal vatRateVal) (float64_lit 100 0);
          grandTotalVal = fadd lineTotalVal taxTotalVal
      in (fmt_f 2 lineTotalVal, fmt_f 2 taxTotalVal, fmt_f 2 grandTotalVal, fmt_f 2 vatRateVal,
          vatTextVal))"

text \<open>
  A request with one line of quantity \<open>10\<^sup>2\<^sup>0\<^sup>0\<close> and unit price \<open>10\<^sup>2\<^sup>0\<^sup>0\<close> (each the nearest
  binary64 value, \<open>5883593420661338 \<sqdot> 2\<^sup>6\<^sup>1\<^sup>2\<close>): the line amount is beyond the largest finite
  value.
\<close>

definition overflowRequest :: InvoiceRequest where
  "overflowRequest =
     sampleRequest\<lparr>Lines := [\<lparr>Description = ''Prestation de conseil'', Quantity = Finite False 5883593420661338 612,
                                 UnitPrice = Finite False 5883593420661338 612, LineDate = []\<rparr>],
                    Regime := VatFranchiseAuto\<rparr>"

definition is_finite :: "float64 \<Rightarrow> bool" where
  "is_finite x = (case x of Finite s m e \<Rightarrow> True | _ \<Rightarrow> False)"

section \<open>The font metrics extractor (\<^verbatim>\<open>font.go\<close>)\<close>

text \<open>
  A \<^verbatim>\<open>uint16\<close> or \<^verbatim>\<open>uint32\<close> read from the file is a \<^typ>\<open>nat\<close> below \<open>2\<^sup>1\<^sup>6\<close> or
  \<open>2\<^sup>3\<^sup>2\<close>; offsets are \<^verbatim>\<open>int\<close>s of 64 bits, which sums of a few such values never
  leave. Every function returns in the option monad: \<^term>\<open>None\<close> is a panic of the
  runtime (a slice bound out of range). An \<^verbatim>\<open>error\<close> result is the left injection.
\<close>

datatype fontError = errInvalidTTF | errMissingTable | errTableTooSmall | errNoCmapSubtable

record fontMetrics =
  unitsPerEM :: nat
  glyphWidths :: "nat \<rightharpoonup> nat"
  defaultWidth :: nat
  ascender :: int
  descender :: int

record tableEntry =
  offset :: nat
  length' :: nat

text \<open>\<^verbatim>\<open>binary.BigEndian.Uint16\<close> and \<^verbatim>\<open>Uint32\<close>: they index the last byte first.\<close>

definition Uint16 :: "string \<Rightarrow> nat option" where
  "Uint16 b = do { b1 \<leftarrow> index b 1; b0 \<leftarrow> index b 0; Some (byte b1 + byte b0 * 0x100) }"

definition Uint32 :: "string \<Rightarrow> nat option" where
  "Uint32 b =
     do {
       b3 \<leftarrow> index b 3; b2 \<leftarrow> index b 2; b1 \<leftarrow> index b 1; b0 \<leftarrow> index b 0;
       Some (byte b3 + byte b2 * 0x100 + byte b1 * 0x10000 + byte b0 * 0x1000000)
     }"

text \<open>\<^verbatim>\<open>binary.BigEndian.Uint16(data[lo:hi])\<close> and the same for 32 bits.\<close>

definition read16 :: "string \<Rightarrow> nat \<Rightarrow> nat \<Rightarrow> nat option" where
  "read16 data lo hi = do { b \<leftarrow> slice data lo hi; Uint16 b }"

definition read32 :: "string \<Rightarrow> nat \<Rightarrow> nat \<Rightarrow> nat option" where
  "read32 data lo hi = do { b \<leftarrow> slice data lo hi; Uint32 b }"

text \<open>The conversion \<^verbatim>\<open>int16(x)\<close> of a \<^verbatim>\<open>uint16\<close>.\<close>

definition int16 :: "nat \<Rightarrow> int" where
  "int16 x = sint (word_of_nat x :: 16 word)"

function findTable_loop :: "string \<Rightarrow> string \<Rightarrow> nat \<Rightarrow> nat \<Rightarrow> tableEntry option option" where
  "findTable_loop data tag numTables i =
     (if i < numTables then
        let entryOffset = 12 + i * 16 in
        if length data < entryOffset + 16 then Some None
        else
          do {
            t \<leftarrow> slice data entryOffset (entryOffset + 4);
            if t = tag then
              do {
                off \<leftarrow> read32 data (entryOffset + 8) (entryOffset + 12);
                len \<leftarrow> read32 data (entryOffset + 12) (entryOffset + 16);
                Some (Some \<lparr>offset = off, length' = len\<rparr>)
              }
            else findTable_loop data tag numTables (i + 1)
          }
      else Some None)"
  by pat_completeness auto
termination
  by (relation "measure (\<lambda>(data, tag, numTables, i). numTables - i)") auto

declare findTable_loop.simps [simp del]

definition findTable :: "string \<Rightarrow> string \<Rightarrow> tableEntry option option" where
  "findTable data tag =
     (if length data < 12 then Some None
      else do { numTables \<leftarrow> read16 data 4 6; findTable_loop data tag numTables 0 })"

definition parseHead :: "string \<Rightarrow> tableEntry \<Rightarrow> (fontError + nat) option" where
  "parseHead data table =
     (let off = offset table in
      if length' table < 54 \<or> length data < off + 54 then Some (Inl errTableTooSmall)
      else do { u \<leftarrow> read16 data (off + 18) (off + 20); Some (Inr u) })"

text \<open>\<^verbatim>\<open>parseHhea\<close> returns \<^verbatim>\<open>numHMetrics\<close>, \<^verbatim>\<open>ascender\<close> and \<^verbatim>\<open>descender\<close>.\<close>

definition parseHhea :: "string \<Rightarrow> tableEntry \<Rightarrow> (fontError + nat \<times> int \<times> int) option" where
  "parseHhea data table =
     (let off = offset table in
      if length' table < 36 \<or> length data < off + 36 then Some (Inl errTableTooSmall)
      else
        do {
          a \<leftarrow> read16 data (off + 4) (off + 6);
          d \<leftarrow> read16 data (off + 6) (off + 8);
          n \<leftarrow> read16 data (off + 34) (off + 36);
          Some (Inr (n, int16 a, int16 d))
        })"

function parseHmtx_loop :: "string \<Rightarrow> nat \<Rightarrow> nat \<Rightarrow> nat \<Rightarrow> nat list \<Rightarrow> nat list option" where
  "parseHmtx_loop data off numHMetrics i widths =
     (if i < numHMetrics then
        let pos = off + i * 4 in
        if length data < pos + 2 then Some widths
        else
          do {
            advanceWidth \<leftarrow> read16 data pos (pos + 2);
            parseHmtx_loop data off numHMetrics (i + 1) (widths @ [advanceWidth])
          }
      else Some widths)"
  by pat_completeness auto
termination
  by (relation "measure (\<lambda>(data, off, numHMetrics, i, widths). numHMetrics - i)") auto

declare parseHmtx_loop.simps [simp del]

definition parseHmtx :: "string \<Rightarrow> tableEntry \<Rightarrow> nat \<Rightarrow> nat list option" where
  "parseHmtx data table numHMetrics = parseHmtx_loop data (offset table) numHMetrics 0 []"

text \<open>
  The width of a glyph index: beyond the horizontal metrics the last entry, and
  \<^verbatim>\<open>defaultWidth\<close> when there are none.
\<close>

definition glyphWidth :: "nat list \<Rightarrow> nat \<Rightarrow> nat \<Rightarrow> nat" where
  "glyphWidth glyphWidthsRaw defWidth glyphIndex =
     (if glyphIndex < length glyphWidthsRaw then glyphWidthsRaw ! glyphIndex
      else if 0 < length glyphWidthsRaw then glyphWidthsRaw ! (length glyphWidthsRaw - 1)
      else defWidth)"

text \<open>
  The loop over the codes of one segment. \<^verbatim>\<open>uint16((int32(x) + idDelta) & 0xFFFF)\<close> is
  the sum modulo \<open>2\<^sup>1\<^sup>6\<close>.
\<close>

function cmap_codes ::
  "string \<Rightarrow> nat list \<Rightarrow> nat \<Rightarrow> nat \<Rightarrow> nat \<Rightarrow> int \<Rightarrow> nat \<Rightarrow> nat \<Rightarrow> nat
   \<Rightarrow> (nat \<rightharpoonup> nat) \<Rightarrow> (nat \<rightharpoonup> nat) option" where
  "cmap_codes data glyphWidthsRaw defWidth startCode endCode idDelta idRangeOffset
      idRangeOffsetPos code charToWidth =
     (if code \<le> endCode then
        do {
          glyphIndex \<leftarrow>
            (if idRangeOffset = 0 then Some (nat ((int code + idDelta) mod 0x10000))
             else
               let glyphOffset = idRangeOffsetPos + idRangeOffset + (code - startCode) * 2 in
               if glyphOffset + 2 \<le> length data then
                 do {
                   glyphID \<leftarrow> read16 data glyphOffset (glyphOffset + 2);
                   Some (if glyphID \<noteq> 0 then nat ((int glyphID + idDelta) mod 0x10000) else 0)
                 }
               else Some 0);
          cmap_codes data glyphWidthsRaw defWidth startCode endCode idDelta idRangeOffset
            idRangeOffsetPos (code + 1)
            (charToWidth(code \<mapsto> glyphWidth glyphWidthsRaw defWidth glyphIndex))
        }
      else Some charToWidth)"
  by pat_completeness auto
termination
  by (relation "measure (\<lambda>(data, ws, dw, startCode, endCode, idDelta, iro, irop, code, m).
        endCode + 1 - code)") auto

declare cmap_codes.simps [simp del]

function cmap_segments ::
  "string \<Rightarrow> nat list \<Rightarrow> nat \<Rightarrow> nat \<Rightarrow> nat \<Rightarrow> nat \<Rightarrow> nat \<Rightarrow> nat \<Rightarrow> nat
   \<Rightarrow> (nat \<rightharpoonup> nat) \<Rightarrow> (nat \<rightharpoonup> nat) option" where
  "cmap_segments data glyphWidthsRaw defWidth segCount endCodesOffset startCodesOffset
      idDeltaOffset idRangeOffsetOffset seg charToWidth =
     (if seg < segCount then
        let endCodePos = endCodesOffset + seg * 2;
            startCodePos = startCodesOffset + seg * 2;
            idDeltaPos = idDeltaOffset + seg * 2;
            idRangeOffsetPos = idRangeOffsetOffset + seg * 2
        in
        if length data < idRangeOffsetPos + 2 then Some charToWidth
        else
          do {
            endCode \<leftarrow> read16 data endCodePos (endCodePos + 2);
            startCode \<leftarrow> read16 data startCodePos (startCodePos + 2);
            d \<leftarrow> read16 data idDeltaPos (idDeltaPos + 2);
            idRangeOffset \<leftarrow> read16 data idRangeOffsetPos (idRangeOffsetPos + 2);
            if startCode = 0xFFFF then Some charToWidth
            else
              do {
                m \<leftarrow> cmap_codes data glyphWidthsRaw defWidth startCode endCode (int16 d)
                       idRangeOffset idRangeOffsetPos startCode charToWidth;
                cmap_segments data glyphWidthsRaw defWidth segCount endCodesOffset
                  startCodesOffset idDeltaOffset idRangeOffsetOffset (seg + 1) m
              }
          }
      else Some charToWidth)"
  by pat_completeness auto
termination
  by (relation "measure (\<lambda>(data, ws, dw, segCount, a, b, c, d, seg, m). segCount - seg)") auto

declare cmap_segments.simps [simp del]

definition parseCmapFormat4 ::
  "string \<Rightarrow> nat \<Rightarrow> nat list \<Rightarrow> (fontError + (nat \<rightharpoonup> nat)) option" where
  "parseCmapFormat4 data subtableOffset glyphWidthsRaw =
     (if length data < subtableOffset + 14 then Some (Inl errTableTooSmall)
      else
        do {
          segCountX2 \<leftarrow> read16 data (subtableOffset + 6) (subtableOffset + 8);
          let segCount = segCountX2 div 2;
              endCodesOffset = subtableOffset + 14;
              startCodesOffset = endCodesOffset + segCountX2 + 2;
              idDeltaOffset = startCodesOffset + segCountX2;
              idRangeOffsetOffset = idDeltaOffset + segCountX2;
              defWidth = (if 0 < length glyphWidthsRaw then glyphWidthsRaw ! 0 else 600)
          in
          do {
            m \<leftarrow> cmap_segments data glyphWidthsRaw defWidth segCount endCodesOffset
                   startCodesOffset idDeltaOffset idRangeOffsetOffset 0 Map.empty;
            Some (Inr m)
          }
        })"

text \<open>
  The two scans of the encoding records of \<^verbatim>\<open>parseCmap\<close>: \<open>preferred\<close> tells the first
  (platform 3, encoding 1, or platform 0, encoding 3) from the fallback. The result
  \<^term>\<open>Some None\<close> is a scan that ended without a subtable.
\<close>

function parseCmap_scan ::
  "bool \<Rightarrow> string \<Rightarrow> nat \<Rightarrow> nat list \<Rightarrow> nat \<Rightarrow> nat
   \<Rightarrow> (fontError + (nat \<rightharpoonup> nat)) option option" where
  "parseCmap_scan preferred data off glyphWidthsRaw numTables i =
     (if i < numTables then
        let recordOffset = off + 4 + i * 8 in
        if length data < recordOffset + 8 then Some None
        else
          do {
            platformID \<leftarrow> read16 data recordOffset (recordOffset + 2);
            encodingID \<leftarrow> read16 data (recordOffset + 2) (recordOffset + 4);
            rel \<leftarrow> read32 data (recordOffset + 4) (recordOffset + 8);
            let subtableOffset = off + rel in
            if length data < subtableOffset + 2 then
              parseCmap_scan preferred data off glyphWidthsRaw numTables (i + 1)
            else
              do {
                format \<leftarrow> read16 data subtableOffset (subtableOffset + 2);
                if format = 4
                   \<and> (preferred \<longrightarrow> (platformID = 3 \<and> encodingID = 1) \<or> (platformID = 0 \<and> encodingID = 3))
                then do { r \<leftarrow> parseCmapFormat4 data subtableOffset glyphWidthsRaw; Some (Some r) }
                else parseCmap_scan preferred data off glyphWidthsRaw numTables (i + 1)
              }
          }
      else Some None)"
  by pat_completeness auto
termination
  by (relation "measure (\<lambda>(p, data, off, ws, numTables, i). numTables - i)") auto

declare parseCmap_scan.simps [simp del]

definition parseCmap ::
  "string \<Rightarrow> tableEntry \<Rightarrow> nat list \<Rightarrow> (fontError + (nat \<rightharpoonup> nat)) option" where
  "parseCmap data table glyphWidthsRaw =
     (let off = offset table in
      if length data < off + 4 then Some (Inl errTableTooSmall)
      else
        do {
          numTables \<leftarrow> read16 data (off + 2) (off + 4);
          first \<leftarrow> parseCmap_scan True data off glyphWidthsRaw numTables 0;
          case first of
            Some r \<Rightarrow> Some r
          | None \<Rightarrow>
              do {
                second \<leftarrow> parseCmap_scan False data off glyphWidthsRaw numTables 0;
                case second of
                  Some r \<Rightarrow> Some r
                | None \<Rightarrow> Some (Inl errNoCmapSubtable)
              }
        })"

definition parseTTF :: "string \<Rightarrow> (fontError + fontMetrics) option" where
  "parseTTF data =
     (if length data < 12 then Some (Inl errInvalidTTF)
      else
        do {
          sfntVersion \<leftarrow> read32 data 0 4;
          if sfntVersion \<noteq> 0x00010000 \<and> sfntVersion \<noteq> 0x4F54544F then Some (Inl errInvalidTTF)
          else
            do {
              head \<leftarrow> findTable data ''head'';
              hhea \<leftarrow> (if head = None then Some None else findTable data ''hhea'');
              hmtx \<leftarrow> (if hhea = None then Some None else findTable data ''hmtx'');
              cmap \<leftarrow> (if hmtx = None then Some None else findTable data ''cmap'');
              case (head, hhea, hmtx, cmap) of
                (Some head, Some hhea, Some hmtx, Some cmap) \<Rightarrow>
                  do {
                    h \<leftarrow> parseHead data head;
                    case h of
                      Inl err \<Rightarrow> Some (Inl err)
                    | Inr upem \<Rightarrow>
                        do {
                          hh \<leftarrow> parseHhea data hhea;
                          case hh of
                            Inl err \<Rightarrow> Some (Inl err)
                          | Inr (numHMetrics, asc, desc) \<Rightarrow>
                              do {
                                glyphWidthsRaw \<leftarrow> parseHmtx data hmtx numHMetrics;
                                let defWidth =
                                  (if 0 < length glyphWidthsRaw then glyphWidthsRaw ! 0 else 600) in
                                do {
                                  c \<leftarrow> parseCmap data cmap glyphWidthsRaw;
                                  case c of
                                    Inl err \<Rightarrow> Some (Inl err)
                                  | Inr widths \<Rightarrow>
                                      Some (Inr \<lparr>unitsPerEM = upem, glyphWidths = widths,
                                                 defaultWidth = defWidth, ascender = asc,
                                                 descender = desc\<rparr>)
                                }
                              }
                        }
                  }
              | _ \<Rightarrow> Some (Inl errMissingTable)
            }
        })"

text \<open>\<^verbatim>\<open>charWidth\<close>: the advance width of a character, in font units.\<close>

definition charWidth :: "fontMetrics \<Rightarrow> rune \<Rightarrow> nat" where
  "charWidth m c = (case glyphWidths m (nat c) of Some w \<Rightarrow> w | None \<Rightarrow> defaultWidth m)"

text \<open>
  A font of 218 bytes for evaluating the parser: the header and four directory entries,
  \<^verbatim>\<open>head\<close> (2048 units per em), \<^verbatim>\<open>hhea\<close> (ascender 1792, descender \<open>-512\<close>, two
  horizontal metrics), \<^verbatim>\<open>hmtx\<close> (advance widths 1024 and 512) and \<^verbatim>\<open>cmap\<close> with one
  format-4 subtable for platform 3, encoding 1, that maps the codes \<open>0x20\<close> to \<open>0x7E\<close>
  to the glyphs from 1 on. \<open>fontWith hmtxOffset\<close> is the font whose directory gives the
  \<^verbatim>\<open>hmtx\<close> table the offset \<open>hmtxOffset\<close>.
\<close>

definition be16 :: "nat \<Rightarrow> nat list" where
  "be16 n = [n div 0x100 mod 0x100, n mod 0x100]"

definition be32 :: "nat \<Rightarrow> nat list" where
  "be32 n = [n div 0x1000000 mod 0x100, n div 0x10000 mod 0x100, n div 0x100 mod 0x100, n mod 0x100]"

definition dirEntry :: "string \<Rightarrow> nat \<Rightarrow> nat \<Rightarrow> string" where
  "dirEntry tag off len = tag @ map chr (be32 0 @ be32 off @ be32 len)"

definition fontWith :: "nat \<Rightarrow> string" where
  "fontWith hmtxOffset =
     map chr (be32 0x00010000 @ be16 4 @ be16 0 @ be16 0 @ be16 0)
     @ dirEntry ''head'' 76 54 @ dirEntry ''hhea'' 130 36
     @ dirEntry ''hmtx'' hmtxOffset 8 @ dirEntry ''cmap'' 174 44
     @ map chr (replicate 18 0 @ be16 2048 @ replicate 34 0)
     @ map chr (replicate 4 0 @ be16 1792 @ be16 0xFE00 @ replicate 26 0 @ be16 2)
     @ map chr (be16 1024 @ be16 0 @ be16 512 @ be16 0)
     @ map chr (be16 0 @ be16 1 @ be16 3 @ be16 1 @ be32 12)
     @ map chr (be16 4 @ be16 32 @ be16 0 @ be16 4 @ be16 4 @ be16 1 @ be16 0
                @ be16 0x7E @ be16 0xFFFF @ be16 0 @ be16 0x20 @ be16 0xFFFF
                @ be16 0xFFE1 @ be16 1 @ be16 0 @ be16 0)"

definition tinyFont :: string where
  "tinyFont = fontWith 166"


section \<open>The PDF document builder (\<^verbatim>\<open>pdf.go\<close>)\<close>

text \<open>
  The two embedded files of the package, \<^verbatim>\<open>assets/sRGB-IEC61966-2.1.icc\<close> and
  \<^verbatim>\<open>assets/LiberationSans-Subset.ttf\<close>, are parameters of the generation.
\<close>

record resources =
  srgbICCProfile :: string
  fontData :: string

record pdfObject =
  num :: int
  gen :: int
  content :: string
  stream :: "string option"

record pdfBuilder =
  objects :: "pdfObject list"
  offsets :: "int list"
  buffer :: string

definition newPDFBuilder :: pdfBuilder where
  "newPDFBuilder = \<lparr>objects = [], offsets = [], buffer = []\<rparr>"

text \<open>\<^verbatim>\<open>addObject\<close>: the builder with the object added; its number is the new length.\<close>

definition addObject :: "pdfBuilder \<Rightarrow> string \<Rightarrow> string option \<Rightarrow> pdfBuilder" where
  "addObject b c s =
     b\<lparr>objects := objects b @ [\<lparr>num = int (length (objects b)) + 1, gen = 0, content = c, stream = s\<rparr>]\<rparr>"

text \<open>
  \<^verbatim>\<open>generateFileID\<close>: sixteen bytes, each updated in place. The first loop visits the
  input's bytes with their index, the second the sixteen positions in order.
\<close>

definition fileID_absorb :: "8 word list \<Rightarrow> nat \<times> char \<Rightarrow> 8 word list" where
  "fileID_absorb hash ib =
     (let i = fst ib; b = of_char (snd ib) :: 8 word; idx = i mod 16;
          h1 = hash[idx := (hash ! idx + b) * 33]
      in h1[idx := h1 ! idx + word_of_nat i * 7])"

definition fileID_mix :: "8 word list \<Rightarrow> nat \<Rightarrow> 8 word list" where
  "fileID_mix hash i = hash[i := (hash ! i + hash ! ((i + 7) mod 16)) * 31]"

definition generateFileID :: "string \<Rightarrow> string" where
  "generateFileID input =
     (let hash0 = replicate 16 (0 :: 8 word);
          hash1 = foldl fileID_absorb hash0 (zip [0..<length input] input);
          hash2 = foldl fileID_mix hash1 [0..<16]
      in concat (map fmt_02X hash2))"

text \<open>What \<^verbatim>\<open>build\<close> writes for one object.\<close>

definition writeObject :: "pdfObject \<Rightarrow> string" where
  "writeObject obj =
     itoa (num obj) @ '' '' @ itoa (gen obj) @ '' obj\<newline>''
     @ content obj
     @ (case stream obj of
          Some s \<Rightarrow> ''\<newline>stream\<newline>'' @ s @ ''\<newline>endstream''
        | None \<Rightarrow> [])
     @ ''\<newline>endobj\<newline>''"

fun build_objects :: "pdfObject list \<Rightarrow> pdfBuilder \<Rightarrow> pdfBuilder" where
  "build_objects [] b = b"
| "build_objects (obj # rest) b =
     build_objects rest
       (b\<lparr>offsets := offsets b @ [int (length (buffer b))], buffer := buffer b @ writeObject obj\<rparr>)"

definition pdfHeader :: string where
  "pdfHeader = ''%PDF-1.7\<newline>'' @ [CHR 0x25, CHR 0xE2, CHR 0xE3, CHR 0xCF, CHR 0xD3, CHR 0x0A]"

definition xrefEntry :: "int \<Rightarrow> string" where
  "xrefEntry off = fmt_010d off @ '' 00000 n \<newline>''"

text \<open>\<^verbatim>\<open>build\<close>: the builder after the call and the bytes returned.\<close>

definition build :: "pdfBuilder \<Rightarrow> string \<Rightarrow> pdfBuilder \<times> string" where
  "build b fileID =
     (let b1 = build_objects (objects b) (b\<lparr>offsets := [], buffer := pdfHeader\<rparr>);
          xrefOffset = int (length (buffer b1));
          idHex = generateFileID fileID;
          out = buffer b1
            @ ''xref\<newline>''
            @ ''0 '' @ itoa (int (length (objects b1)) + 1) @ ''\<newline>''
            @ ''0000000000 65535 f \<newline>''
            @ concat (map xrefEntry (offsets b1))
            @ ''trailer\<newline>''
            @ ''<< /Size '' @ itoa (int (length (objects b1)) + 1)
            @ '' /Root 1 0 R /Info 2 0 R /ID [<'' @ idHex @ ''> <'' @ idHex @ ''>] >>\<newline>''
            @ ''startxref\<newline>'' @ itoa xrefOffset @ ''\<newline>%%EOF\<newline>''
      in (b1\<lparr>buffer := out\<rparr>, out))"

definition bytesToHex :: "string \<Rightarrow> string" where
  "bytesToHex data = concat (map (\<lambda>b. fmt_02X (of_char b)) data) @ ''>''"

definition escapePDFString_rune :: "rune \<Rightarrow> string" where
  "escapePDFString_rune c =
     (if c = 0x28 then [CHR 0x5C, CHR 0x28]
      else if c = 0x29 then [CHR 0x5C, CHR 0x29]
      else if c = 0x5C then [CHR 0x5C, CHR 0x5C]
      else encodeRune c)"

definition escapePDFString :: "string \<Rightarrow> string" where
  "escapePDFString s = concat (map escapePDFString_rune (runes s))"

text \<open>\<^verbatim>\<open>strings.ReplaceAll\<close> for a pattern of one byte, and \<^verbatim>\<open>escapeXMLAttr\<close>.\<close>

definition ReplaceAll :: "string \<Rightarrow> char \<Rightarrow> string \<Rightarrow> string" where
  "ReplaceAll s old new = concat (map (\<lambda>c. if c = old then new else [c]) s)"

definition escapeXMLAttr :: "string \<Rightarrow> string" where
  "escapeXMLAttr s =
     (let s1 = ReplaceAll s CHR ''&'' ''&amp;'';
          s2 = ReplaceAll s1 CHR ''<'' ''&lt;'';
          s3 = ReplaceAll s2 CHR ''>'' ''&gt;''
      in ReplaceAll s3 CHR 0x22 ''&quot;'')"

definition generateXMPMetadata :: "InvoiceRequest \<Rightarrow> string option" where
  "generateXMPMetadata req =
     do {
       y \<leftarrow> slice (Date req) 0 4;
       m \<leftarrow> slice (Date req) 4 6;
       d \<leftarrow> slice (Date req) 6 8;
       Some (
        ''<?xpacket begin=\"\" id=\"W5M0MpCehiHzreSzNTczkc9d\"?>\<newline>''
        @ ''<x:xmpmeta xmlns:x=\"adobe:ns:meta/\">\<newline>''
        @ ''  <rdf:RDF xmlns:rdf=\"http://www.w3.org/1999/02/22-rdf-syntax-ns#\">\<newline>''
        @ ''    <rdf:Description rdf:about=\"\" xmlns:dc=\"http://purl.org/dc/elements/1.1/\">\<newline>''
        @ ''      <dc:title>\<newline>''
        @ ''        <rdf:Alt>\<newline>''
        @ ''          <rdf:li xml:lang=\"x-default\">Facture ''
        @ escapeXMLAttr (Number req)
        @ ''</rdf:li>\<newline>''
        @ ''        </rdf:Alt>\<newline>''
        @ ''      </dc:title>\<newline>''
        @ ''      <dc:creator>\<newline>''
        @ ''        <rdf:Seq>\<newline>''
        @ ''          <rdf:li>''
        @ escapeXMLAttr (Name (Seller req))
        @ ''</rdf:li>\<newline>''
        @ ''        </rdf:Seq>\<newline>''
        @ ''      </dc:creator>\<newline>''
        @ ''    </rdf:Description>\<newline>''
        @ ''    <rdf:Description rdf:about=\"\" xmlns:pdf=\"http://ns.adobe.com/pdf/1.3/\">\<newline>''
        @ ''      <pdf:Producer>facturx-go</pdf:Producer>\<newline>''
        @ ''    </rdf:Description>\<newline>''
        @ ''    <rdf:Description rdf:about=\"\" xmlns:xmp=\"http://ns.adobe.com/xap/1.0/\">\<newline>''
        @ ''      <xmp:CreateDate>''
        @ y
        @ ''-''
        @ m
        @ ''-''
        @ d
        @ ''T00:00:00+00:00</xmp:CreateDate>\<newline>''
        @ ''      <xmp:ModifyDate>''
        @ y
        @ ''-''
        @ m
        @ ''-''
        @ d
        @ ''T00:00:00+00:00</xmp:ModifyDate>\<newline>''
        @ ''    </rdf:Description>\<newline>''
        @ ''    <rdf:Description rdf:about=\"\" xmlns:pdfaid=\"http://www.aiim.org/pdfa/ns/id/\">\<newline>''
        @ ''      <pdfaid:part>3</pdfaid:part>\<newline>''
        @ ''      <pdfaid:conformance>B</pdfaid:conformance>\<newline>''
        @ ''    </rdf:Description>\<newline>''
        @ ''    <rdf:Description rdf:about=\"\" xmlns:pdfaExtension=\"http://www.aiim.org/pdfa/ns/extension/\" xmlns:pdfaSchema=\"http://www.aiim.org/pdfa/ns/schema#\" xmlns:pdfaProperty=\"http://www.aiim.org/pdfa/ns/property#\">\<newline>''
        @ ''      <pdfaExtension:schemas>\<newline>''
        @ ''        <rdf:Bag>\<newline>''
        @ ''          <rdf:li rdf:parseType=\"Resource\">\<newline>''
        @ ''            <pdfaSchema:schema>Factur-X PDFA Extension Schema</pdfaSchema:schema>\<newline>''
        @ ''            <pdfaSchema:namespaceURI>urn:factur-x:pdfa:CrossIndustryDocument:invoice:1p0#</pdfaSchema:namespaceURI>\<newline>''
        @ ''            <pdfaSchema:prefix>fx</pdfaSchema:prefix>\<newline>''
        @ ''            <pdfaSchema:property>\<newline>''
        @ ''              <rdf:Seq>\<newline>''
        @ ''                <rdf:li rdf:parseType=\"Resource\">\<newline>''
        @ ''                  <pdfaProperty:name>DocumentFileName</pdfaProperty:name>\<newline>''
        @ ''                  <pdfaProperty:valueType>Text</pdfaProperty:valueType>\<newline>''
        @ ''                  <pdfaProperty:category>external</pdfaProperty:category>\<newline>''
        @ ''                  <pdfaProperty:description>Name of the embedded XML invoice file</pdfaProperty:description>\<newline>''
        @ ''                </rdf:li>\<newline>''
        @ ''                <rdf:li rdf:parseType=\"Resource\">\<newline>''
        @ ''                  <pdfaProperty:name>DocumentType</pdfaProperty:name>\<newline>''
        @ ''                  <pdfaProperty:valueType>Text</pdfaProperty:valueType>\<newline>''
        @ ''                  <pdfaProperty:category>external</pdfaProperty:category>\<newline>''
        @ ''                  <pdfaProperty:description>Type of the hybrid document</pdfaProperty:description>\<newline>''
        @ ''                </rdf:li>\<newline>''
        @ ''                <rdf:li rdf:parseType=\"Resource\">\<newline>''
        @ ''                  <pdfaProperty:name>Version</pdfaProperty:name>\<newline>''
        @ ''                  <pdfaProperty:valueType>Text</pdfaProperty:valueType>\<newline>''
        @ ''                  <pdfaProperty:category>external</pdfaProperty:category>\<newline>''
        @ ''                  <pdfaProperty:description>Version of the Factur-X standard</pdfaProperty:description>\<newline>''
        @ ''                </rdf:li>\<newline>''
        @ ''                <rdf:li rdf:parseType=\"Resource\">\<newline>''
        @ ''                  <pdfaProperty:name>ConformanceLevel</pdfaProperty:name>\<newline>''
        @ ''                  <pdfaProperty:valueType>Text</pdfaProperty:valueType>\<newline>''
        @ ''                  <pdfaProperty:category>external</pdfaProperty:category>\<newline>''
        @ ''                  <pdfaProperty:description>Conformance level of the Factur-X document</pdfaProperty:description>\<newline>''
        @ ''                </rdf:li>\<newline>''
        @ ''              </rdf:Seq>\<newline>''
        @ ''            </pdfaSchema:property>\<newline>''
        @ ''          </rdf:li>\<newline>''
        @ ''        </rdf:Bag>\<newline>''
        @ ''      </pdfaExtension:schemas>\<newline>''
        @ ''    </rdf:Description>\<newline>''
        @ ''    <rdf:Description rdf:about=\"\" xmlns:fx=\"urn:factur-x:pdfa:CrossIndustryDocument:invoice:1p0#\">\<newline>''
        @ ''      <fx:DocumentFileName>factur-x.xml</fx:DocumentFileName>\<newline>''
        @ ''      <fx:DocumentType>INVOICE</fx:DocumentType>\<newline>''
        @ ''      <fx:Version>1.0</fx:Version>\<newline>''
        @ ''      <fx:ConformanceLevel>BASIC</fx:ConformanceLevel>\<newline>''
        @ ''    </rdf:Description>\<newline>''
        @ ''  </rdf:RDF>\<newline>''
        @ ''</x:xmpmeta>\<newline>''
        @ ''<?xpacket end=\"w\"?>'')
     }"

text \<open>
  \<^verbatim>\<open>generateFontWidths\<close>: the widths of the codes 32 to 255, scaled to 1000 units and
  separated by spaces.
\<close>

definition scaledWidth :: "fontMetrics \<Rightarrow> int \<Rightarrow> string" where
  "scaledWidth metrics code =
     (let scale = fdiv (float64_lit 1000 0) (float64_of_int (int (unitsPerEM metrics)));
          width = charWidth metrics code;
          scaled = int_of_float64 (fadd (fmul (float64_of_int (int width)) scale) (float64_lit 5 1))
      in (if 32 < code then '' '' else []) @ itoa scaled)"

definition generateFontWidths :: "fontMetrics \<Rightarrow> string" where
  "generateFontWidths metrics = concat (map (scaledWidth metrics) [32..255])"

text \<open>\<^verbatim>\<open>getFontMetrics\<close> panics when the embedded font does not parse.\<close>

definition getFontMetrics :: "resources \<Rightarrow> fontMetrics option" where
  "getFontMetrics res = (case parseTTF (fontData res) of Some (Inr m) \<Rightarrow> Some m | _ \<Rightarrow> None)"

subsection \<open>The page content stream\<close>

text \<open>
  \<^verbatim>\<open>encodeWinAnsi\<close>: the body of the loop for one rune. The accented letters and signs of
  the table become octal escapes, \<open>U+0153\<close> becomes \<^verbatim>\<open>oe\<close>, the other printable ASCII
  characters stay, and everything else becomes a question mark.
\<close>

definition octalEscape :: "string \<Rightarrow> string" where
  "octalEscape digits = CHR 0x5C # digits"

definition encodeWinAnsi_rune :: "rune \<Rightarrow> string" where
  "encodeWinAnsi_rune c =
     (if c = 0x28 then [CHR 0x5C, CHR 0x28]
      else if c = 0x29 then [CHR 0x5C, CHR 0x29]
      else if c = 0x5C then [CHR 0x5C, CHR 0x5C]
      else if c = 0x0A then [CHR 0x5C, CHR ''n'']
      else if c = 0x0D then [CHR 0x5C, CHR ''r'']
      else if c = 0x09 then [CHR 0x5C, CHR ''t'']
      else if c = 0xE9 then octalEscape ''351''
      else if c = 0xE8 then octalEscape ''350''
      else if c = 0xEA then octalEscape ''352''
      else if c = 0xEB then octalEscape ''353''
      else if c = 0xE0 then octalEscape ''340''
      else if c = 0xE2 then octalEscape ''342''
      else if c = 0xE4 then octalEscape ''344''
      else if c = 0xF9 then octalEscape ''371''
      else if c = 0xFB then octalEscape ''373''
      else if c = 0xFC then octalEscape ''374''
      else if c = 0xF4 then octalEscape ''364''
      else if c = 0xF6 then octalEscape ''366''
      else if c = 0xEE then octalEscape ''356''
      else if c = 0xEF then octalEscape ''357''
      else if c = 0xE7 then octalEscape ''347''
      else if c = 0x153 then ''oe''
      else if c = 0xE6 then octalEscape ''346''
      else if c = 0x20AC then octalEscape ''200''
      else if c = 0xB0 then octalEscape ''260''
      else if c = 0xB2 then octalEscape ''262''
      else if c = 0xB3 then octalEscape ''263''
      else if c = 0xC9 then octalEscape ''311''
      else if c = 0xC8 then octalEscape ''310''
      else if c = 0xCA then octalEscape ''312''
      else if c = 0xC0 then octalEscape ''300''
      else if c = 0xC7 then octalEscape ''307''
      else if c = 0xD4 then octalEscape ''324''
      else if c = 0xD9 then octalEscape ''331''
      else if c = 0xDB then octalEscape ''333''
      else if c = 0xCE then octalEscape ''316''
      else if c = 0xCF then octalEscape ''317''
      else if 32 \<le> c \<and> c < 127 then encodeRune c
      else ''?'')"

definition encodeWinAnsi :: "string \<Rightarrow> string" where
  "encodeWinAnsi s = concat (map encodeWinAnsi_rune (runes s))"

definition writeTextColored ::
  "string \<Rightarrow> float64 \<Rightarrow> float64 \<Rightarrow> float64 \<Rightarrow> float64 \<Rightarrow> float64 \<Rightarrow> float64 \<Rightarrow> string" where
  "writeTextColored text x y fontSize r g b =
     (let encoded = encodeWinAnsi text in
      ''BT\<newline>''
      @ fmt_f 3 r @ '' '' @ fmt_f 3 g @ '' '' @ fmt_f 3 b @ '' rg\<newline>''
      @ ''/F1 '' @ fmt_f 0 fontSize @ '' Tf\<newline>''
      @ fmt_f 2 x @ '' '' @ fmt_f 2 y @ '' Td\<newline>''
      @ ''('' @ encoded @ '') Tj\<newline>''
      @ ''ET\<newline>'')"

text \<open>The colours of the template.\<close>

definition primaryR :: float64 where "primaryR = float64_lit 173 3"
definition primaryG :: float64 where "primaryG = float64_lit 243 3"
definition primaryB :: float64 where "primaryB = float64_lit 314 3"
definition accentR :: float64 where "accentR = float64_lit 204 3"
definition accentG :: float64 where "accentG = float64_lit 596 3"
definition accentB :: float64 where "accentB = float64_lit 859 3"
definition grayR :: float64 where "grayR = float64_lit 584 3"
definition grayG :: float64 where "grayG = float64_lit 647 3"
definition grayB :: float64 where "grayB = float64_lit 651 3"
definition lightBgR :: float64 where "lightBgR = float64_lit 925 3"
definition lightBgG :: float64 where "lightBgG = float64_lit 941 3"
definition lightBgB :: float64 where "lightBgB = float64_lit 945 3"

abbreviation (input) fl :: "int \<Rightarrow> float64" where
  "fl i \<equiv> float64_of_int i"

text \<open>
  The description of a row: \<^verbatim>\<open>desc[:42] + "..."\<close> when it is longer than 45 bytes.
\<close>

definition rowDescription :: "string \<Rightarrow> string option" where
  "rowDescription desc =
     (if 45 < length desc then do { d \<leftarrow> slice desc 0 42; Some (d @ ''...'') } else Some desc)"

text \<open>
  The body of the loop over the lines, for the line of index \<open>i\<close> drawn at height \<open>y\<close>.
\<close>

definition pageRow :: "float64 \<Rightarrow> float64 \<Rightarrow> nat \<Rightarrow> InvoiceLine \<Rightarrow> float64 \<Rightarrow> string option" where
  "pageRow pageWidth margin i line y =
     (let colDesc = margin;
          colQty = fadd margin (fl 280);
          colPrice = fadd margin (fl 350);
          colTotal = fadd margin (fl 440);
          rowHeight = fl 22;
          lineAmount = fmul (Quantity line) (UnitPrice line)
      in
      do {
        desc \<leftarrow> rowDescription (Description line);
        Some (
          (if i mod 2 = 0 then
             fmt_f 3 lightBgR @ '' '' @ fmt_f 3 lightBgG @ '' '' @ fmt_f 3 lightBgB @ '' rg\<newline>''
             @ fmt_f 2 (fsub margin (fl 10)) @ '' '' @ fmt_f 2 (fsub y (fl 5)) @ '' ''
             @ fmt_f 2 (fadd (fsub pageWidth (fmul (fl 2) margin)) (fl 20)) @ '' ''
             @ fmt_f 2 rowHeight @ '' re f\<newline>''
           else [])
          @ writeTextColored desc colDesc (fadd y (fl 3)) (fl 10)
              (float64_lit 2 1) (float64_lit 2 1) (float64_lit 2 1)
          @ writeTextColored (fmt_f 2 (Quantity line)) colQty (fadd y (fl 3)) (fl 10)
              (float64_lit 2 1) (float64_lit 2 1) (float64_lit 2 1)
          @ writeTextColored (fmt_f 2 (UnitPrice line) @ '' EUR'') colPrice (fadd y (fl 3)) (fl 10)
              (float64_lit 2 1) (float64_lit 2 1) (float64_lit 2 1)
          @ writeTextColored (fmt_f 2 lineAmount @ '' EUR'') colTotal (fadd y (fl 3)) (fl 10)
              (float64_lit 2 1) (float64_lit 2 1) (float64_lit 2 1))
      })"

text \<open>The loop: the text of the rows and the height \<open>y\<close> after the last row.\<close>

fun pageRows ::
  "float64 \<Rightarrow> float64 \<Rightarrow> nat \<Rightarrow> InvoiceLine list \<Rightarrow> float64 \<Rightarrow> (string \<times> float64) option" where
  "pageRows pageWidth margin i [] y = Some ([], y)"
| "pageRows pageWidth margin i (line # rest) y =
     do {
       row \<leftarrow> pageRow pageWidth margin i line y;
       (rows, y') \<leftarrow> pageRows pageWidth margin (i + 1) rest (fsub y (fl 22));
       Some (row @ rows, y')
     }"

text \<open>\<^verbatim>\<open>strings.Split(s, "\n")\<close>.\<close>

fun splitLines :: "string \<Rightarrow> string list" where
  "splitLines [] = [[]]"
| "splitLines (c # cs) =
     (if c = CHR 0x0A then [] # splitLines cs
      else (case splitLines cs of l # ls \<Rightarrow> (c # l) # ls | [] \<Rightarrow> [[c]]))"

text \<open>The loop over the lines of the custom mentions, from the height \<open>cmY\<close> down.\<close>

fun customMentionLines :: "float64 \<Rightarrow> string list \<Rightarrow> float64 \<Rightarrow> string" where
  "customMentionLines margin [] cmY = []"
| "customMentionLines margin (line # rest) cmY =
     writeTextColored line margin cmY (fl 8) grayR grayG grayB
     @ customMentionLines margin rest (fsub cmY (fl 11))"

text \<open>
  \<^verbatim>\<open>generatePageContent\<close> in three parts: what it writes before the loop over the
  lines (\<open>pageTop\<close>), the loop (\<open>pageRows\<close>), and what it writes after the loop
  (\<open>pageBottom\<close>, from the height \<open>y\<close> that the loop leaves).
\<close>

definition pageTop :: "InvoiceRequest \<Rightarrow> float64 \<Rightarrow> float64 \<Rightarrow> float64 \<Rightarrow> string option" where
  "pageTop req pageWidth pageHeight margin =
     (let headerHeight = fl 70;
          invoiceInfo = ''N'' @ [CHR 0xC2, CHR 0xB0] @ '' '' @ Number req;
          dateX = fsub (fsub pageWidth margin) (fl 80);
          yParties = fsub pageHeight (fl 110);
          blockWidth = fdiv (fsub (fsub pageWidth (fmul (fl 2) margin)) (fl 30)) (fl 2);
          sellerName = (if AddEISuffix req then Name (Seller req) @ '', EI'' else Name (Seller req));
          buyerX = fadd (fdiv pageWidth (fl 2)) (fl 15);
          tableTop = fsub pageHeight (fl 230);
          colDesc = margin;
          colQty = fadd margin (fl 280);
          colPrice = fadd margin (fl 350);
          colTotal = fadd margin (fl 440)
      in
      do {
        d68 \<leftarrow> slice (Date req) 6 8;
        d46 \<leftarrow> slice (Date req) 4 6;
        d04 \<leftarrow> slice (Date req) 0 4;
        let dateStr = d68 @ ''/'' @ d46 @ ''/'' @ d04 in
        Some (
        ''q\<newline>''
        @ fmt_f 3 primaryR @ '' '' @ fmt_f 3 primaryG @ '' '' @ fmt_f 3 primaryB @ '' rg\<newline>''
        @ ''0 '' @ fmt_f 2 (fsub pageHeight headerHeight) @ '' '' @ fmt_f 2 pageWidth @ '' ''
        @ fmt_f 2 headerHeight @ '' re f\<newline>''
        @ writeTextColored ''FACTURE'' margin (fsub pageHeight (fl 45)) (fl 28) (fl 1) (fl 1) (fl 1)
        @ writeTextColored invoiceInfo margin (fsub pageHeight (fl 62)) (fl 11)
            (float64_lit 8 1) (float64_lit 8 1) (float64_lit 8 1)
        @ ''1 1 1 rg\<newline>''
        @ fmt_f 2 (fsub dateX (fl 5)) @ '' '' @ fmt_f 2 (fsub pageHeight (fl 50))
        @ '' 75 20 re f\<newline>''
        @ writeTextColored dateStr dateX (fsub pageHeight (fl 44)) (fl 10)
            primaryR primaryG primaryB
        @ fmt_f 3 accentR @ '' '' @ fmt_f 3 accentG @ '' '' @ fmt_f 3 accentB @ '' RG\<newline>''
        @ ''3 w\<newline>''
        @ fmt_f 2 (fl 0) @ '' '' @ fmt_f 2 (fsub pageHeight headerHeight) @ '' m ''
        @ fmt_f 2 pageWidth @ '' '' @ fmt_f 2 (fsub pageHeight headerHeight) @ '' l S\<newline>''
        @ ''1 w\<newline>''
        @ fmt_f 3 lightBgR @ '' '' @ fmt_f 3 lightBgG @ '' '' @ fmt_f 3 lightBgB @ '' rg\<newline>''
        @ fmt_f 2 (fsub margin (fl 10)) @ '' '' @ fmt_f 2 (fsub yParties (fl 70)) @ '' ''
        @ fmt_f 2 (fadd blockWidth (fl 20)) @ '' 85 re f\<newline>''
        @ writeTextColored ''VENDEUR'' margin yParties (fl 11) primaryR primaryG primaryB
        @ writeTextColored sellerName margin (fsub yParties (fl 18)) (fl 10)
            (float64_lit 2 1) (float64_lit 2 1) (float64_lit 2 1)
        @ writeTextColored (Address (Seller req)) margin (fsub yParties (fl 33)) (fl 9)
            grayR grayG grayB
        @ writeTextColored (ZipCode (Seller req) @ '' '' @ City (Seller req)) margin
            (fsub yParties (fl 46)) (fl 9) grayR grayG grayB
        @ writeTextColored (''SIRET: '' @ Siret (Seller req)) margin (fsub yParties (fl 59)) (fl 9)
            grayR grayG grayB
        @ fmt_f 3 lightBgR @ '' '' @ fmt_f 3 lightBgG @ '' '' @ fmt_f 3 lightBgB @ '' rg\<newline>''
        @ fmt_f 2 (fsub buyerX (fl 10)) @ '' '' @ fmt_f 2 (fsub yParties (fl 70)) @ '' ''
        @ fmt_f 2 (fadd blockWidth (fl 20)) @ '' 85 re f\<newline>''
        @ writeTextColored ''CLIENT'' buyerX yParties (fl 11) primaryR primaryG primaryB
        @ writeTextColored (Name (Buyer req)) buyerX (fsub yParties (fl 18)) (fl 10)
            (float64_lit 2 1) (float64_lit 2 1) (float64_lit 2 1)
        @ writeTextColored (Address (Buyer req)) buyerX (fsub yParties (fl 33)) (fl 9)
            grayR grayG grayB
        @ writeTextColored (ZipCode (Buyer req) @ '' '' @ City (Buyer req)) buyerX
            (fsub yParties (fl 46)) (fl 9) grayR grayG grayB
        @ writeTextColored (''SIRET: '' @ Siret (Buyer req)) buyerX (fsub yParties (fl 59)) (fl 9)
            grayR grayG grayB
        @ fmt_f 3 primaryR @ '' '' @ fmt_f 3 primaryG @ '' '' @ fmt_f 3 primaryB @ '' rg\<newline>''
        @ fmt_f 2 (fsub margin (fl 10)) @ '' '' @ fmt_f 2 (fsub tableTop (fl 5)) @ '' ''
        @ fmt_f 2 (fadd (fsub pageWidth (fmul (fl 2) margin)) (fl 20)) @ '' ''
        @ fmt_f 2 (fl 25) @ '' re f\<newline>''
        @ writeTextColored ''Description'' colDesc (fadd tableTop (fl 3)) (fl 10) (fl 1) (fl 1) (fl 1)
        @ writeTextColored (''Qt'' @ [CHR 0xC3, CHR 0xA9]) colQty (fadd tableTop (fl 3)) (fl 10)
            (fl 1) (fl 1) (fl 1)
        @ writeTextColored ''Prix unit.'' colPrice (fadd tableTop (fl 3)) (fl 10) (fl 1) (fl 1) (fl 1)
        @ writeTextColored ''Total HT'' colTotal (fadd tableTop (fl 3)) (fl 10) (fl 1) (fl 1) (fl 1))
      })"

definition pageBottom ::
  "InvoiceRequest \<Rightarrow> string \<Rightarrow> string \<Rightarrow> string \<Rightarrow> string \<Rightarrow> string
   \<Rightarrow> float64 \<Rightarrow> float64 \<Rightarrow> float64 \<Rightarrow> string" where
  "pageBottom req lineTotalS taxTotalS grandTotalS vatRateS vatText pageWidth margin y =
     (let colPrice = fadd margin (fl 350);
          colTotal = fadd margin (fl 440);
          rowHeight = fl 22;
          totalsBoxX = fsub colPrice (fl 40);
          totalsBoxY = fsub y (fl 85);
          totalsBoxW = fadd (fsub (fsub pageWidth margin) totalsBoxX) (fl 25);
          totalsBoxH = fl 80;
          totalsLabelX = fsub colPrice (fl 20);
          totalsValueX = colTotal;
          totalsY = fsub (fadd totalsBoxY totalsBoxH) (fl 20);
          mentionsY = fl 110
      in
          fmt_f 3 primaryR @ '' '' @ fmt_f 3 primaryG @ '' '' @ fmt_f 3 primaryB @ '' RG\<newline>''
        @ ''0.5 w\<newline>''
        @ fmt_f 2 (fsub margin (fl 10)) @ '' '' @ fmt_f 2 (fsub (fadd y rowHeight) (fl 5)) @ '' m ''
        @ fmt_f 2 (fadd (fsub pageWidth margin) (fl 10)) @ '' ''
        @ fmt_f 2 (fsub (fadd y rowHeight) (fl 5)) @ '' l S\<newline>''
        @ fmt_f 3 lightBgR @ '' '' @ fmt_f 3 lightBgG @ '' '' @ fmt_f 3 lightBgB @ '' rg\<newline>''
        @ fmt_f 2 totalsBoxX @ '' '' @ fmt_f 2 totalsBoxY @ '' '' @ fmt_f 2 totalsBoxW @ '' ''
        @ fmt_f 2 totalsBoxH @ '' re f\<newline>''
        @ fmt_f 3 primaryR @ '' '' @ fmt_f 3 primaryG @ '' '' @ fmt_f 3 primaryB @ '' RG\<newline>''
        @ ''1 w\<newline>''
        @ fmt_f 2 totalsBoxX @ '' '' @ fmt_f 2 totalsBoxY @ '' '' @ fmt_f 2 totalsBoxW @ '' ''
        @ fmt_f 2 totalsBoxH @ '' re S\<newline>''
        @ writeTextColored ''Total HT:'' totalsLabelX totalsY (fl 10)
            (float64_lit 2 1) (float64_lit 2 1) (float64_lit 2 1)
        @ writeTextColored (lineTotalS @ '' EUR'') totalsValueX totalsY (fl 10)
            (float64_lit 2 1) (float64_lit 2 1) (float64_lit 2 1)
        @ writeTextColored (''TVA ('' @ vatRateS @ ''%):'') totalsLabelX (fsub totalsY (fl 18)) (fl 10)
            (float64_lit 2 1) (float64_lit 2 1) (float64_lit 2 1)
        @ writeTextColored (taxTotalS @ '' EUR'') totalsValueX (fsub totalsY (fl 18)) (fl 10)
            (float64_lit 2 1) (float64_lit 2 1) (float64_lit 2 1)
        @ fmt_f 3 primaryR @ '' '' @ fmt_f 3 primaryG @ '' '' @ fmt_f 3 primaryB @ '' rg\<newline>''
        @ fmt_f 2 totalsBoxX @ '' '' @ fmt_f 2 totalsBoxY @ '' '' @ fmt_f 2 totalsBoxW
        @ '' 22 re f\<newline>''
        @ writeTextColored ''Total TTC:'' totalsLabelX (fadd totalsBoxY (fl 6)) (fl 11)
            (fl 1) (fl 1) (fl 1)
        @ writeTextColored (grandTotalS @ '' EUR'') totalsValueX (fadd totalsBoxY (fl 6)) (fl 11)
            (fl 1) (fl 1) (fl 1)
        @ fmt_f 3 accentR @ '' '' @ fmt_f 3 accentG @ '' '' @ fmt_f 3 accentB @ '' RG\<newline>''
        @ ''2 w\<newline>''
        @ fmt_f 2 margin @ '' '' @ fmt_f 2 (fadd mentionsY (fl 15)) @ '' m ''
        @ fmt_f 2 (fadd margin (fl 40)) @ '' '' @ fmt_f 2 (fadd mentionsY (fl 15)) @ '' l S\<newline>''
        @ ''1 w\<newline>''
        @ writeTextColored (''Mentions l'' @ [CHR 0xC3, CHR 0xA9] @ ''gales'') margin mentionsY (fl 9)
            primaryR primaryG primaryB
        @ writeTextColored vatText margin (fsub mentionsY (fl 14)) (fl 8) grayR grayG grayB
        @ (if CustomMentions req \<noteq> [] then
             customMentionLines margin (splitLines (CustomMentions req)) (fsub mentionsY (fl 28))
           else [])
        @ fmt_f 3 lightBgR @ '' '' @ fmt_f 3 lightBgG @ '' '' @ fmt_f 3 lightBgB @ '' rg\<newline>''
        @ ''0 0 '' @ fmt_f 2 pageWidth @ '' 35 re f\<newline>''
        @ writeTextColored
            (''Document g'' @ [CHR 0xC3, CHR 0xA9] @ ''n'' @ [CHR 0xC3, CHR 0xA9] @ ''r''
             @ [CHR 0xC3, CHR 0xA9] @ '' conform'' @ [CHR 0xC3, CHR 0xA9] @ ''ment ''
             @ [CHR 0xC3, CHR 0xA0] @ '' la norme Factur-X 1.0 (Profil BASIC)'')
            margin (fl 14) (fl 7) grayR grayG grayB
        @ ''Q\<newline>'')"

definition generatePageContent ::
  "InvoiceRequest \<Rightarrow> string \<Rightarrow> string \<Rightarrow> string \<Rightarrow> string \<Rightarrow> string \<Rightarrow> fontMetrics
   \<Rightarrow> float64 \<Rightarrow> float64 \<Rightarrow> float64 \<Rightarrow> string option" where
  "generatePageContent req lineTotalS taxTotalS grandTotalS vatRateS vatText metrics
      pageWidth pageHeight margin =
     do {
       top \<leftarrow> pageTop req pageWidth pageHeight margin;
       (rows, y) \<leftarrow> pageRows pageWidth margin 0 (Lines req) (fsub (fsub pageHeight (fl 230)) (fl 25));
       Some (top @ rows
             @ pageBottom req lineTotalS taxTotalS grandTotalS vatRateS vatText pageWidth margin y)
     }"

subsection \<open>The document\<close>

text \<open>
  \<^verbatim>\<open>generatePDF\<close>: the totals, the metrics, the fifteen objects of the document, then
  \<^verbatim>\<open>build\<close>. The value \<open>None\<close> is a panic (of \<^verbatim>\<open>getFontMetrics\<close>, or of a slice
  expression out of range in \<^verbatim>\<open>generateXMPMetadata\<close> or \<^verbatim>\<open>generatePageContent\<close>). The
  page is A4, 595.28 by 841.89 points, with a margin of 50 points.
\<close>

definition catalogContent :: string where
  "catalogContent = ''<< /Type /Catalog /Pages 3 0 R /MarkInfo << /Marked true >> /StructTreeRoot 4 0 R /Metadata 5 0 R /OutputIntents [6 0 R] /Names << /EmbeddedFiles << /Names [(factur-x.xml) 7 0 R] >> >> /AF [7 0 R] >>''"

definition infoContent :: "InvoiceRequest \<Rightarrow> string" where
  "infoContent req =
     ''<< /Title (Facture '' @ escapePDFString (Number req) @ '') /Producer (facturx-go) /CreationDate (D:''
     @ Date req @ '') /ModDate (D:'' @ Date req @ '') >>''"

definition pagesContent :: string where
  "pagesContent = ''<< /Type /Pages /Kids [8 0 R] /Count 1 >>''"

definition structTreeContent :: string where
  "structTreeContent = ''<< /Type /StructTreeRoot >>''"

definition xmpContent :: "string \<Rightarrow> string" where
  "xmpContent xmp = ''<< /Type /Metadata /Subtype /XML /Length '' @ itoa (int (length xmp)) @ '' >>''"

definition outputIntentContent :: string where
  "outputIntentContent = ''<< /Type /OutputIntent /S /GTS_PDFA1 /OutputConditionIdentifier (sRGB IEC61966-2.1) /RegistryName (http://www.color.org) /Info (sRGB IEC61966-2.1) /DestOutputProfile 9 0 R >>''"

definition filespecContent :: string where
  "filespecContent = ''<< /Type /Filespec /F (factur-x.xml) /UF (factur-x.xml) /Desc (Factur-X XML invoice) /AFRelationship /Data /EF << /F 10 0 R /UF 10 0 R >> >>''"

definition pageContent :: "float64 \<Rightarrow> float64 \<Rightarrow> string" where
  "pageContent pageWidth pageHeight =
     ''<< /Type /Page /Parent 3 0 R /MediaBox [0 0 '' @ fmt_f 2 pageWidth @ '' '' @ fmt_f 2 pageHeight
     @ ''] /Contents 11 0 R /Resources << /Font << /F1 12 0 R >> >> >>''"

definition iccContent :: "string \<Rightarrow> string" where
  "iccContent iccHex = ''<< /N 3 /Length '' @ itoa (int (length iccHex)) @ '' /Filter /ASCIIHexDecode >>''"

definition embeddedFileContent :: "string \<Rightarrow> string" where
  "embeddedFileContent xmlBytes =
     ''<< /Type /EmbeddedFile /Subtype /text#2Fxml /Length '' @ itoa (int (length xmlBytes))
     @ '' /Params << /Size '' @ itoa (int (length xmlBytes)) @ '' >> >>''"

definition contentObj :: "string \<Rightarrow> string" where
  "contentObj contentStream = ''<< /Length '' @ itoa (int (length contentStream)) @ '' >>''"

definition fontDictContent :: string where
  "fontDictContent = ''<< /Type /Font /Subtype /TrueType /BaseFont /LiberationSans /FirstChar 32 /LastChar 255 /FontDescriptor 13 0 R /Encoding /WinAnsiEncoding /Widths 14 0 R >>''"

definition fontDescriptorContent :: "fontMetrics \<Rightarrow> string" where
  "fontDescriptorContent metrics =
     ''<< /Type /FontDescriptor /FontName /LiberationSans /Flags 32 /FontBBox [-543 -303 1300 979] /ItalicAngle 0 /Ascent ''
     @ itoa (ascender metrics) @ '' /Descent '' @ itoa (descender metrics)
     @ '' /CapHeight 729 /StemV 80 /FontFile2 15 0 R >>''"

definition widthsContent :: "fontMetrics \<Rightarrow> string" where
  "widthsContent metrics = ''['' @ generateFontWidths metrics @ '']''"

definition fontContent :: "string \<Rightarrow> string" where
  "fontContent fontDataBytes =
     ''<< /Length '' @ itoa (int (length fontDataBytes)) @ '' /Length1 ''
     @ itoa (int (length fontDataBytes)) @ '' >>''"

text \<open>
  The fifteen calls of \<^verbatim>\<open>addObject\<close>, given the three values whose computation can
  panic (the metrics, the XMP packet and the content stream of the page).
\<close>

definition documentObjects ::
  "resources \<Rightarrow> InvoiceRequest \<Rightarrow> string \<Rightarrow> fontMetrics \<Rightarrow> string \<Rightarrow> string \<Rightarrow> pdfBuilder" where
  "documentObjects res req xmlContent metrics xmp contentStream =
     (let fontDataBytes = fontData res;
          pageWidth = float64_lit 59528 2;
          pageHeight = float64_lit 84189 2;
          b1 = addObject newPDFBuilder catalogContent None;
          b2 = addObject b1 (infoContent req) None;
          b3 = addObject b2 pagesContent None;
          b4 = addObject b3 structTreeContent None;
          b5 = addObject b4 (xmpContent xmp) (Some xmp);
          b6 = addObject b5 outputIntentContent None;
          b7 = addObject b6 filespecContent None;
          b8 = addObject b7 (pageContent pageWidth pageHeight) None;
          iccHex = bytesToHex (srgbICCProfile res);
          b9 = addObject b8 (iccContent iccHex) (Some iccHex);
          xmlBytes = xmlContent;
          b10 = addObject b9 (embeddedFileContent xmlBytes) (Some xmlBytes);
          b11 = addObject b10 (contentObj contentStream) (Some contentStream);
          b12 = addObject b11 fontDictContent None;
          b13 = addObject b12 (fontDescriptorContent metrics) None;
          b14 = addObject b13 (widthsContent metrics) None;
          b15 = addObject b14 (fontContent fontDataBytes) (Some fontDataBytes)
      in b15)"

definition generatePDF :: "resources \<Rightarrow> InvoiceRequest \<Rightarrow> string \<Rightarrow> string option" where
  "generatePDF res req xmlContent =
     (case calculateTotals req of (lineTotalS, taxTotalS, grandTotalS, vatRateS, vatText) \<Rightarrow>
      do {
        metrics \<leftarrow> getFontMetrics res;
        xmp \<leftarrow> generateXMPMetadata req;
        contentStream \<leftarrow> generatePageContent req lineTotalS taxTotalS grandTotalS vatRateS vatText
            metrics (float64_lit 59528 2) (float64_lit 84189 2) (float64_lit 500 1);
        let builder = documentObjects res req xmlContent metrics xmp contentStream;
            fileID = Number req @ ''_'' @ Date req
        in Some (snd (build builder fileID))
      })"

section \<open>The entry points (\<^verbatim>\<open>facturx.go\<close>)\<close>

text \<open>
  \<^verbatim>\<open>Generate\<close> returns the bytes (\<open>None\<close> is \<^verbatim>\<open>nil\<close>) and the error (\<open>None\<close> is
  \<^verbatim>\<open>nil\<close>); \<^verbatim>\<open>GenerateXMLOnly\<close> returns the text and the error. The outer \<open>None\<close> is a
  panic.
\<close>

definition Generate ::
  "(rune \<Rightarrow> bool) \<Rightarrow> resources \<Rightarrow> InvoiceRequest \<Rightarrow> (string option \<times> ValidationError option) option" where
  "Generate L res req =
     do {
       err \<leftarrow> validate L req;
       case err of
         Some e \<Rightarrow> Some (None, Some e)
       | None \<Rightarrow>
           do {
             let xml = generateCIIXML req in
             do {
               pdf \<leftarrow> generatePDF res req xml;
               Some (Some pdf, None)
             }
           }
     }"

definition GenerateXMLOnly ::
  "(rune \<Rightarrow> bool) \<Rightarrow> InvoiceRequest \<Rightarrow> (string \<times> ValidationError option) option" where
  "GenerateXMLOnly L req =
     do {
       err \<leftarrow> validate L req;
       case err of
         Some e \<Rightarrow> Some ([], Some e)
       | None \<Rightarrow> Some (generateCIIXML req, None)
     }"

text \<open>The resources of the examples: a small colour profile and the font \<open>tinyFont\<close>.\<close>

definition sampleResources :: resources where
  "sampleResources = \<lparr>srgbICCProfile = [CHR 0x00, CHR 0x01, CHR 0xFF], fontData = tinyFont\<rparr>"


section \<open>The vocabulary of the statements\<close>

text \<open>
  The date as the specification words it: 8 decimal digits, the first four a year from
  2000 to 2100, the next two a month from 1 to 12, the last two a day from 1 to 31.
\<close>

definition decimal :: "string \<Rightarrow> nat" where
  "decimal s = foldl (\<lambda>n c. n * 10 + digit_value c) 0 s"

definition date_spec :: "string \<Rightarrow> bool" where
  "date_spec d =
     (length d = 8 \<and> list_all ascii_digit d
      \<and> 2000 \<le> decimal (take 4 d) \<and> decimal (take 4 d) \<le> 2100
      \<and> 1 \<le> decimal (take 2 (drop 4 d)) \<and> decimal (take 2 (drop 4 d)) \<le> 12
      \<and> 1 \<le> decimal (take 2 (drop 6 d)) \<and> decimal (take 2 (drop 6 d)) \<le> 31)"

text \<open>\<^verbatim>\<open>validate\<close> returns a failure on the field \<^verbatim>\<open>Date\<close>.\<close>

definition rejectsDate :: "(rune \<Rightarrow> bool) \<Rightarrow> InvoiceRequest \<Rightarrow> bool" where
  "rejectsDate L req = (case validate L req of Some (Some e) \<Rightarrow> Field e = ''Date'' | _ \<Rightarrow> False)"

definition isASCII :: "string \<Rightarrow> bool" where
  "isASCII s = list_all (\<lambda>c. byte c < 0x80) s"

text \<open>
  Two requests: the sample dated 31 February 2024, and the sample with a date of 8 bytes
  whose third character is the Arabic-Indic digit zero (\<open>U+0660\<close>, two bytes in UTF-8).
\<close>

definition feb31Request :: InvoiceRequest where
  "feb31Request = sampleRequest\<lparr>Date := ''20240231''\<rparr>"

definition arabicDateRequest :: InvoiceRequest where
  "arabicDateRequest = sampleRequest\<lparr>Date := ''42'' @ [CHR 0xD9, CHR 0xA0] @ ''0101''\<rparr>"





text \<open>The description as the row of the page shows it.\<close>

definition abridged :: "string \<Rightarrow> string" where
  "abridged d = (if 45 < length d then take 42 d @ ''...'' else d)"

definition longDescription :: string where
  "longDescription = ''Prestation de conseil en architecture logicielle''"

definition longRequest :: InvoiceRequest where
  "longRequest =
     sampleRequest\<lparr>Lines := [\<lparr>Description = longDescription, Quantity = float64_of_int 10,
                              UnitPrice = float64_of_int 100, LineDate = []\<rparr>]\<rparr>"



section \<open>The identifier checksum\<close>

lemma byte_sub_digit:
  assumes "0x30 \<le> byte c"
  shows "uint ((of_char c :: 8 word) - 0x30) = int (byte c - 0x30)"
proof -
  let ?n = "of_char c :: nat"
  have lt: "?n < 256" by (rule nat_of_char_less_256)
  have ge: "48 \<le> ?n" using assms by (simp add: byte_def)
  have "(of_char c :: 8 word) = of_nat ?n" by (simp add: of_nat_of_char)
  also have "\<dots> - 0x30 = of_nat (?n - 48)" using ge by (simp add: of_nat_diff)
  finally have "(of_char c :: 8 word) - 0x30 = of_nat (?n - 48)" .
  moreover have "?n - 48 < 256" using lt by arith
  hence "uint (of_nat (?n - 48) :: 8 word) = int (?n - 48)"
    by (simp add: uint_nat unat_of_nat)
  ultimately show ?thesis by (simp add: byte_def)
qed

lemma luhn_step:
  "(if i mod 2 = 1 then (if 9 < int d * 2 then int d * 2 - 9 else int d * 2) else int d)
   = int (luhn_transform i d)"
  by (auto simp: luhn_transform_def odd_iff_mod_2_eq_one)

text \<open>The loop's invariant: from position \<open>i\<close> on, it adds the transformed digits.\<close>

lemma luhn_loop_inv:
  assumes len: "length s = 14" and dig: "list_all ascii_digit s"
  shows "i \<le> 14 \<Longrightarrow> validateSiretLuhn_loop s i acc
          = Some (acc + int (\<Sum>j \<leftarrow> [i..<14]. luhn_transform j (digit_value (s ! j))))"
  using len dig
proof (induction s i acc rule: validateSiretLuhn_loop.induct)
  case (1 siret i acc)
  show ?case
  proof (cases "i < 14")
    case False
    with 1(2) have "i = 14" by simp
    then show ?thesis by (simp add: validateSiretLuhn_loop.simps)
  next
    case True
    let ?c = "siret ! i"
    let ?d = "digit_value ?c"
    have idx: "index siret i = Some ?c" using True 1(3) by (simp add: index_def)
    have "ascii_digit ?c" using True 1(3,4) by (simp add: list_all_length)
    hence w: "uint ((of_char ?c :: 8 word) - 0x30) = int ?d"
      by (simp add: byte_sub_digit ascii_digit_def digit_value_def)
    have IH: "validateSiretLuhn_loop siret (i + 1) (acc + int (luhn_transform i ?d))
       = Some (acc + int (luhn_transform i ?d)
               + int (\<Sum>j \<leftarrow> [i + 1..<14]. luhn_transform j (digit_value (siret ! j))))"
    proof -
      note ih = 1(1)[OF True idx refl refl, unfolded w luhn_step]
      have "i + 1 \<le> 14" using True by simp
      from ih[OF this 1(3) 1(4)] show ?thesis .
    qed
    have split: "[i..<14] = i # [i + 1..<14]" using True by (simp add: upt_conv_Cons)
    show ?thesis
      apply (subst validateSiretLuhn_loop.simps)
      apply (simp only: True if_True idx bind.bind_lunit Let_def w luhn_step IH split)
      apply simp
      done
  qed
qed

lemma validateSiretLuhn_spec:
  "length s = 14 \<Longrightarrow> list_all ascii_digit s \<Longrightarrow>
   validateSiretLuhn s = Some (luhn_sum_spec s mod 10 = 0)"
proof -
  assume a: "length s = 14" "list_all ascii_digit s"
  have m: "(int n mod 10 = 0) = (n mod 10 = 0)" for n :: nat
    by presburger
  show ?thesis
    unfolding validateSiretLuhn_def luhn_sum_spec_def
    by (simp add: luhn_loop_inv[OF a] m)
qed

lemma bad_luhn: "validateSiretLuhn ''12345678901234'' = Some False"
  by code_simp

lemma bad_digits: "list_all IsDigit (runes ''12345678901234'')"
  by code_simp

lemma validateContact_bad:
  "Siret c = ''12345678901234'' \<Longrightarrow>
   validateContact L c prefix True
     = Some (Some \<lparr>Field = prefix @ ''.Siret'', Message = ''SIRET checksum invalid (Luhn)''\<rparr>)"
  by (simp add: validateContact_def bad_luhn bad_digits)

section \<open>Validation never panics\<close>

lemma luhn_loop_total:
  "length s = 14 \<Longrightarrow> \<exists>r. validateSiretLuhn_loop s i acc = Some r"
proof (induction s i acc rule: validateSiretLuhn_loop.induct)
  case (1 siret i acc)
  show ?case
  proof (cases "i < 14")
    case False
    then show ?thesis by (simp add: validateSiretLuhn_loop.simps)
  next
    case True
    have idx: "index siret i = Some (siret ! i)" using True 1(2) by (simp add: index_def)
    from 1(1)[OF True idx refl refl 1(2)] show ?thesis
      by (subst validateSiretLuhn_loop.simps) (simp add: True idx Let_def)
  qed
qed

lemma validateSiretLuhn_total:
  "length s = 14 \<Longrightarrow> \<exists>b. validateSiretLuhn s = Some b"
  using luhn_loop_total[of s 0 0] by (auto simp: validateSiretLuhn_def)

lemma validateContact_total: "\<exists>r. validateContact L c prefix b = Some r"
proof (cases "length (Siret c) = 14")
  case True
  from validateSiretLuhn_total[OF this] obtain ok where "validateSiretLuhn (Siret c) = Some ok" ..
  then show ?thesis by (simp add: validateContact_def)
next
  case False
  then show ?thesis by (simp add: validateContact_def)
qed

lemma validate_total: "\<exists>r. validate L req = Some r"
proof -
  obtain rs where s: "validateContact L (Seller req) ''Seller'' True = Some rs"
    using validateContact_total by blast
  obtain rb where b: "validateContact L (Buyer req) ''Buyer'' False = Some rb"
    using validateContact_total by blast
  show ?thesis
    by (simp add: validate_def slice_def s b Let_def split: option.splits)
qed

lemma validate_bad_siret_fails:
  assumes "Siret (Seller req) = ''12345678901234''"
  shows "\<exists>e. validate L req = Some (Some e)"
proof -
  obtain rb where b: "validateContact L (Buyer req) ''Buyer'' False = Some rb"
    using validateContact_total by blast
  show ?thesis
    by (simp add: validate_def slice_def validateContact_bad[OF assms] Let_def split: option.splits)
qed

lemma validate_bad_siret_field:
  assumes "validate L req = Some None"
  shows "validate L (req\<lparr>Seller := (Seller req)\<lparr>Siret := ''12345678901234''\<rparr>\<rparr>)
         = Some (Some \<lparr>Field = ''Seller.Siret'', Message = ''SIRET checksum invalid (Luhn)''\<rparr>)"
proof -
  have c: "validateContact L ((Seller req)\<lparr>Siret := ''12345678901234''\<rparr>) ''Seller'' True
     = Some (Some \<lparr>Field = ''Seller.Siret'', Message = ''SIRET checksum invalid (Luhn)''\<rparr>)"
    using validateContact_bad[of "(Seller req)\<lparr>Siret := ''12345678901234''\<rparr>" L "''Seller''"] by simp
  show ?thesis
    using assms
    by (simp add: validate_def slice_def c Let_def split: option.splits if_splits)
qed

section \<open>Evaluating the sample request\<close>

lemma float64_of_int_0: "float64_of_int 0 = Finite False 0 (-1074)"
  by (simp add: float64_of_int_def float64_lit_def round_ratio_def)

lemma float64_of_int_10: "float64_of_int 10 = Finite False 5629499534213120 (-49)"
  by (simp add: float64_of_int_def float64_lit_def round_ratio_def floor_log2_def bitlen.simps
      round_half_even_def Let_def)

lemma float64_of_int_20: "float64_of_int 20 = Finite False 5629499534213120 (-48)"
  by (simp add: float64_of_int_def float64_lit_def round_ratio_def floor_log2_def bitlen.simps
      round_half_even_def Let_def)

lemma float64_of_int_100: "float64_of_int 100 = Finite False 7036874417766400 (-46)"
  by (simp add: float64_of_int_def float64_lit_def round_ratio_def floor_log2_def bitlen.simps
      round_half_even_def Let_def)

lemma fle_zero: "fle (Finite s m e) (Finite t 0 e') = (s \<or> m = 0)"
  by (auto simp: sval_def mult_le_0_iff)

lemma flt_zero: "flt (Finite s m e) (Finite t 0 e') = (s \<and> m \<noteq> 0)"
  by (auto simp: sval_def mult_less_0_iff zero_less_mult_iff)

lemma sample_strings:
  "TrimSpace_empty ''FA-2024-001'' = False"
  "TrimSpace_empty ''ACME Corp'' = False"
  "TrimSpace_empty ''Client SA'' = False"
  "list_all IsDigit (runes ''20240115'')"
  "parseInt ''2024'' = 2024" "parseInt ''01'' = 1" "parseInt ''15'' = 15"
  by code_simp+

lemma sample_contacts:
  "validateContact (\<lambda>r. False) (Seller sampleRequest) ''Seller'' True = Some None"
  "validateContact (\<lambda>r. False) (Buyer sampleRequest) ''Buyer'' False = Some None"
  by code_simp+

lemma sample_lines: "validateLines 0 (Lines sampleRequest) = None"
  by (simp add: sampleRequest_def float64_of_int_0 float64_of_int_10 float64_of_int_100
      fle_zero flt_zero sval_def)

lemma validate_sampleRequest: "validate (\<lambda>r. False) sampleRequest = Some None"
proof -
  have fields: "Number sampleRequest = ''FA-2024-001''" "Date sampleRequest = ''20240115''"
    "Name (Seller sampleRequest) = ''ACME Corp''" "Name (Buyer sampleRequest) = ''Client SA''"
    "Lines sampleRequest \<noteq> []"
    "Regime sampleRequest = VatStandard (float64_of_int 20)"
    by (simp_all add: sampleRequest_def)
  show ?thesis
    unfolding validate_def
    by (simp add: fields sample_strings sample_contacts sample_lines slice_def VatStandard_def
        float64_of_int_0 float64_of_int_20 flt_zero sval_def)
qed

section \<open>Facts about \<^verbatim>\<open>float64\<close>\<close>

lemma bitlen_numeral:
  "bitlen 0 = 0" "bitlen 1 = 1" "bitlen (Suc 0) = 1"
  "bitlen (numeral (Num.Bit0 n)) = bitlen (numeral n) + 1"
  "bitlen (numeral (Num.Bit1 n)) = bitlen (numeral n) + 1"
  "bitlen (numeral Num.One) = 1"
proof -
  show "bitlen 0 = 0" "bitlen 1 = 1" "bitlen (Suc 0) = 1" "bitlen (numeral Num.One) = 1"
    by (simp_all add: bitlen.simps)
  have "numeral (Num.Bit0 n) div 2 = (numeral n :: nat)" by simp
  then show "bitlen (numeral (Num.Bit0 n)) = bitlen (numeral n) + 1"
    by (subst bitlen.simps) simp
  have "numeral (Num.Bit1 n) div 2 = (numeral n :: nat)" by simp
  then show "bitlen (numeral (Num.Bit1 n)) = bitlen (numeral n) + 1"
    by (subst bitlen.simps) simp
qed

lemmas float64_eval = float64_of_int_def float64_lit_def round_scaled_def round_ratio_def
  floor_log2_def bitlen_numeral round_half_even_def Let_def

lemma bitlen_bounds: "0 < n \<Longrightarrow> 2 ^ (bitlen n - 1) \<le> n \<and> n < 2 ^ bitlen n"
proof (induction n rule: bitlen.induct)
  case (1 n)
  show ?case
  proof (cases "n div 2 = 0")
    case True
    with 1(2) have "n = 1" by (simp add: div_eq_0_iff)
    then show ?thesis by (simp add: bitlen.simps)
  next
    case False
    then have pos: "0 < n div 2" by simp
    from 1(1)[OF _ pos] 1(2)
    have ih: "2 ^ (bitlen (n div 2) - 1) \<le> n div 2" "n div 2 < 2 ^ bitlen (n div 2)" by auto
    have bl: "bitlen n = Suc (bitlen (n div 2))"
      using 1(2) by (subst bitlen.simps) simp
    have b1: "0 < bitlen (n div 2)" using pos by (subst bitlen.simps) simp
    then obtain k where k: "bitlen (n div 2) = Suc k" by (cases "bitlen (n div 2)") auto
    from ih have "2 * 2 ^ k \<le> n" "n < 2 * 2 ^ Suc k" unfolding k by simp_all
    then show ?thesis unfolding bl k by simp
  qed
qed

lemma round_scaled_overflow:
  assumes m: "2 ^ 52 \<le> m" and e: "971 < e"
  shows "round_scaled s m e = Infinity s"
proof -
  define p where "p = m * 2 ^ nat e"
  have "(2::nat) ^ 52 * 2 ^ nat e \<le> p" unfolding p_def using m by simp
  hence pge: "(2::nat) ^ (52 + nat e) \<le> p" by (simp add: power_add)
  hence ppos: "0 < p" by (metis less_le_trans zero_less_numeral zero_less_power)
  from bitlen_bounds[OF ppos] have bb: "2 ^ (bitlen p - 1) \<le> p" "p < 2 ^ bitlen p" by auto
  from pge bb(2) have "(2::nat) ^ (52 + nat e) < 2 ^ bitlen p" by (rule le_less_trans)
  hence bl: "52 + nat e < bitlen p" by simp
  have b1: "bitlen (Suc 0) = Suc 0" by (simp add: bitlen.simps)
  have n1: "nat (int (bitlen p) - 1) = bitlen p - 1" by simp
  have n2: "nat (1 - int (bitlen p)) = 0" using bl by simp
  have fl: "floor_log2 p 1 = int (bitlen p) - 1"
    using bb(1) by (simp add: floor_log2_def b1 Let_def n1 n2)
  have big: "971 < max (floor_log2 p 1 - 52) (- 1074)"
    using bl e unfolding fl by simp
  have "round_ratio s p 1 = Infinity s"
    using ppos big unfolding round_ratio_def Let_def by auto
  moreover have "nat (- e) = 0" using e by simp
  ultimately show ?thesis unfolding round_scaled_def p_def by simp
qed


lemma float64_lit_100: "float64_lit 100 0 = Finite False 7036874417766400 (-46)"
  by (simp add: float64_eval)

lemma fzero_eq: "float64_of_int 0 = fzero"
  by (simp add: float64_of_int_0 fzero_def)

text \<open>A finite total times the rate zero, over 100, is a zero; adding it changes nothing.\<close>

lemma fmul_zero_rate: "fmul (Finite s m e) fzero = Finite s 0 (-1074)"
  by (simp add: fzero_def round_scaled_def round_ratio_def)

lemma fdiv_zero_100: "fdiv (Finite s 0 (-1074)) (float64_lit 100 0) = Finite s 0 (-1074)"
  by (simp add: float64_lit_100 round_ratio_def)

lemma fadd_zero_tax:
  "fadd (Finite s m e) (Finite s 0 (-1074)) = (if m = 0 then Finite s 0 (-1074) else Finite s m e)"
  by simp

lemma feq_zero: "feq (Finite s 0 e) (Finite t 0 e')"
  by (simp add: feq_def sval_def)

lemma feq_refl_finite: "feq (Finite s m e) (Finite s m e)"
  by (simp add: feq_def)

lemma exempt_totals_finite:
  assumes "l = Finite s m e"
  shows "feq (fdiv (fmul l fzero) (float64_lit 100 0)) fzero"
    and "feq (fadd l (fdiv (fmul l fzero) (float64_lit 100 0))) l"
proof -
  have t: "fdiv (fmul l fzero) (float64_lit 100 0) = Finite s 0 (-1074)"
    unfolding assms by (simp only: fmul_zero_rate fdiv_zero_100)
  have "feq (Finite s 0 (-1074)) fzero"
    unfolding fzero_def by (rule feq_zero)
  then show "feq (fdiv (fmul l fzero) (float64_lit 100 0)) fzero"
    unfolding t .
  have "feq (fadd (Finite s m e) (Finite s 0 (-1074))) (Finite s m e)"
    unfolding fadd_zero_tax
    by (cases "m = 0") (simp_all only: refl if_True if_False feq_zero feq_refl_finite)
  then show "feq (fadd l (fdiv (fmul l fzero) (float64_lit 100 0))) l"
    unfolding t unfolding assms .
qed

section \<open>The two computations of the totals\<close>

lemma sumLines_Nil: "sumLines [] = fzero"
  by (simp add: sumLines_def)

lemma sumLines_snoc:
  "sumLines (ls @ [l]) = fadd (sumLines ls) (fmul (Quantity l) (UnitPrice l))"
  by (simp add: sumLines_def)

lemma exempt_rate: "rate VatFranchiseAuto = fzero" "rate VatExemptHealth = fzero"
  by (simp_all add: VatFranchiseAuto_def VatExemptHealth_def fzero_eq)

lemma exempt_kind: "kind VatFranchiseAuto = vatFranchiseAuto" "kind VatExemptHealth = vatExemptHealth"
  "kind (VatStandard r) = vatStandard" "rate (VatStandard r) = r"
  by (simp_all add: VatFranchiseAuto_def VatExemptHealth_def VatStandard_def)

section \<open>The claims\<close>

text \<open>
  Claim C1. For every string of exactly 14 ASCII decimal digits, \<^verbatim>\<open>validateSiretLuhn\<close>
  returns true exactly when the sum of the transformed digits (the digit, doubled at an odd
  0-indexed position, less 9 when the doubled value exceeds 9) is divisible by 10. The
  string \<^verbatim>\<open>12345678901234\<close> is rejected; the validation of a seller contact with that
  identifier returns the failure scoped to \<^verbatim>\<open>Seller.Siret\<close>; every invoice with that
  seller identifier fails validation, and an invoice that passes validation fails with the
  failure scoped to \<^verbatim>\<open>Seller.Siret\<close> once its seller identifier is replaced by that
  string.
\<close>

theorem C1_siret_luhn:
  "(length s = 14 \<and> list_all ascii_digit s \<longrightarrow>
      validateSiretLuhn s = Some (luhn_sum_spec s mod 10 = 0))
   \<and> validateSiretLuhn ''12345678901234'' = Some False
   \<and> (Siret c = ''12345678901234'' \<longrightarrow>
        validateContact L c ''Seller'' True
          = Some (Some \<lparr>Field = ''Seller.Siret'', Message = ''SIRET checksum invalid (Luhn)''\<rparr>))
   \<and> (Siret (Seller req) = ''12345678901234'' \<longrightarrow> (\<exists>e. validate L req = Some (Some e)))
   \<and> (validate L req' = Some None \<longrightarrow>
        validate L (req'\<lparr>Seller := (Seller req')\<lparr>Siret := ''12345678901234''\<rparr>\<rparr>)
          = Some (Some \<lparr>Field = ''Seller.Siret'', Message = ''SIRET checksum invalid (Luhn)''\<rparr>))"
proof (intro conjI impI)
  assume "length s = 14 \<and> list_all ascii_digit s"
  then show "validateSiretLuhn s = Some (luhn_sum_spec s mod 10 = 0)"
    by (simp add: validateSiretLuhn_spec)
next
  show "validateSiretLuhn ''12345678901234'' = Some False" by (rule bad_luhn)
next
  assume "Siret c = ''12345678901234''"
  from validateContact_bad[OF this, of L "''Seller''"]
  show "validateContact L c ''Seller'' True
      = Some (Some \<lparr>Field = ''Seller.Siret'', Message = ''SIRET checksum invalid (Luhn)''\<rparr>)"
    by simp
next
  assume "Siret (Seller req) = ''12345678901234''"
  then show "\<exists>e. validate L req = Some (Some e)" by (rule validate_bad_siret_fails)
next
  assume "validate L req' = Some None"
  then show "validate L (req'\<lparr>Seller := (Seller req')\<lparr>Siret := ''12345678901234''\<rparr>\<rparr>)
      = Some (Some \<lparr>Field = ''Seller.Siret'', Message = ''SIRET checksum invalid (Luhn)''\<rparr>)"
    by (rule validate_bad_siret_field)
qed

theorem C1_siret_luhn_witness:
  "length ''12345678900006'' = 14 \<and> list_all ascii_digit ''12345678900006''
   \<and> validateSiretLuhn ''12345678900006'' = Some (luhn_sum_spec ''12345678900006'' mod 10 = 0)
   \<and> luhn_sum_spec ''12345678900006'' = 50
   \<and> luhn_sum_spec ''12345678901234'' = 63
   \<and> Siret (Seller badSiretRequest) = ''12345678901234''
   \<and> validateContact (\<lambda>r. False) (Seller badSiretRequest) ''Seller'' True
       = Some (Some \<lparr>Field = ''Seller.Siret'', Message = ''SIRET checksum invalid (Luhn)''\<rparr>)
   \<and> validate (\<lambda>r. False) sampleRequest = Some None
   \<and> validate (\<lambda>r. False) badSiretRequest
       = Some (Some \<lparr>Field = ''Seller.Siret'', Message = ''SIRET checksum invalid (Luhn)''\<rparr>)"
proof -
  have h1: "length ''12345678900006'' = 14 \<and> list_all ascii_digit ''12345678900006''"
    by code_simp
  have h2: "Siret (Seller badSiretRequest) = ''12345678901234''"
    by (simp add: badSiretRequest_def)
  have h3: "validate (\<lambda>r. False) sampleRequest = Some None"
    by (rule validate_sampleRequest)
  have s1: "luhn_sum_spec ''12345678900006'' = 50" by code_simp
  have s2: "luhn_sum_spec ''12345678901234'' = 63" by code_simp
  note t = C1_siret_luhn[of "''12345678900006''" "Seller badSiretRequest" "\<lambda>r. False"
      badSiretRequest sampleRequest]
  note c1 = t[THEN conjunct1, rule_format, OF h1]
  note c3 = t[THEN conjunct2, THEN conjunct2, THEN conjunct1, rule_format, OF h2]
  note c5 = t[THEN conjunct2, THEN conjunct2, THEN conjunct2, THEN conjunct2, rule_format, OF h3,
      folded badSiretRequest_def]
  show ?thesis
    by (intro conjI h1[THEN conjunct1] h1[THEN conjunct2] h2 h3 s1 s2 c1 c3 c5)
qed

lemma overflow_line:
  "fmul (Finite False 5883593420661338 612) (Finite False 5883593420661338 612) = Infinity False"
  by (simp add: round_scaled_overflow)

lemma overflow_calc:
  "lineTotal (calculateInvoice overflowRequest) = Infinity False"
  "taxTotal (calculateInvoice overflowRequest) = NaN"
  "grandTotal (calculateInvoice overflowRequest) = NaN"
  by (simp_all add: calculateInvoice_def Let_def overflowRequest_def sumLines_def
      round_scaled_overflow fzero_def exempt_rate float64_lit_100)

lemma overflow_validate: "validate (\<lambda>r. False) overflowRequest = Some None"
proof -
  have fields: "Number overflowRequest = ''FA-2024-001''" "Date overflowRequest = ''20240115''"
    "Seller overflowRequest = Seller sampleRequest" "Buyer overflowRequest = Buyer sampleRequest"
    "Name (Seller sampleRequest) = ''ACME Corp''" "Name (Buyer sampleRequest) = ''Client SA''"
    "Lines overflowRequest \<noteq> []"
    "kind (Regime overflowRequest) = vatFranchiseAuto"
    by (simp_all add: overflowRequest_def sampleRequest_def exempt_kind)
  have lines: "validateLines 0 (Lines overflowRequest) = None"
    by (simp add: overflowRequest_def float64_of_int_0 fle_zero flt_zero
        del: fle.simps flt.simps)
  show ?thesis
    unfolding validate_def
    by (simp add: fields sample_strings sample_contacts lines slice_def)
qed

text \<open>
  Claim C2, as amended. For every invoice request, \<^verbatim>\<open>calculateInvoice\<close> returns
  lineTotal = the sum of Quantity \<times> UnitPrice over the lines (accumulated from zero in the
  order of the lines), taxBase = lineTotal, taxTotal = taxBase \<times> rate / 100, grandTotal =
  taxBase + taxTotal and dueAmount = grandTotal; for the regimes built by
  \<^verbatim>\<open>VatFranchiseAuto\<close> and \<^verbatim>\<open>VatExemptHealth\<close> the rate used is 0, and then, when
  lineTotal is a finite number, taxTotal equals 0 and grandTotal equals lineTotal.
\<close>

theorem C2_calculateInvoice:
  "lineTotal (calculateInvoice req) = sumLines (Lines req)
   \<and> sumLines [] = fzero
   \<and> sumLines (ls @ [l]) = fadd (sumLines ls) (fmul (Quantity l) (UnitPrice l))
   \<and> taxBase (calculateInvoice req) = lineTotal (calculateInvoice req)
   \<and> taxTotal (calculateInvoice req)
       = fdiv (fmul (taxBase (calculateInvoice req)) (rate (Regime req))) (float64_lit 100 0)
   \<and> grandTotal (calculateInvoice req)
       = fadd (taxBase (calculateInvoice req)) (taxTotal (calculateInvoice req))
   \<and> dueAmount (calculateInvoice req) = grandTotal (calculateInvoice req)
   \<and> vatRate (calculateInvoice req) = rate (Regime req)
   \<and> (Regime req = VatFranchiseAuto \<or> Regime req = VatExemptHealth \<longrightarrow>
        vatRate (calculateInvoice req) = fzero
        \<and> (is_finite (lineTotal (calculateInvoice req)) \<longrightarrow>
             feq (taxTotal (calculateInvoice req)) fzero
             \<and> feq (grandTotal (calculateInvoice req)) (lineTotal (calculateInvoice req))))"
proof -
  have shape:
    "lineTotal (calculateInvoice req) = sumLines (Lines req)"
    "taxBase (calculateInvoice req) = lineTotal (calculateInvoice req)"
    "taxTotal (calculateInvoice req)
       = fdiv (fmul (taxBase (calculateInvoice req)) (rate (Regime req))) (float64_lit 100 0)"
    "grandTotal (calculateInvoice req)
       = fadd (taxBase (calculateInvoice req)) (taxTotal (calculateInvoice req))"
    "dueAmount (calculateInvoice req) = grandTotal (calculateInvoice req)"
    "vatRate (calculateInvoice req) = rate (Regime req)"
    by (simp_all add: calculateInvoice_def Let_def)
  have exempt:
    "vatRate (calculateInvoice req) = fzero
     \<and> (is_finite (lineTotal (calculateInvoice req)) \<longrightarrow>
          feq (taxTotal (calculateInvoice req)) fzero
          \<and> feq (grandTotal (calculateInvoice req)) (lineTotal (calculateInvoice req)))"
    if r: "Regime req = VatFranchiseAuto \<or> Regime req = VatExemptHealth"
  proof (intro conjI impI)
    from r have z: "rate (Regime req) = fzero" by (auto simp: exempt_rate)
    show "vatRate (calculateInvoice req) = fzero" by (simp add: shape z)
    assume "is_finite (lineTotal (calculateInvoice req))"
    then obtain s m e where l: "lineTotal (calculateInvoice req) = Finite s m e"
      by (auto simp: is_finite_def split: float64.splits)
    have tt: "taxTotal (calculateInvoice req)
        = fdiv (fmul (lineTotal (calculateInvoice req)) fzero) (float64_lit 100 0)"
      by (simp only: shape(3) shape(2) z)
    have gt: "grandTotal (calculateInvoice req)
        = fadd (lineTotal (calculateInvoice req))
            (fdiv (fmul (lineTotal (calculateInvoice req)) fzero) (float64_lit 100 0))"
      by (simp only: shape(4) shape(2) tt)
    show "feq (taxTotal (calculateInvoice req)) fzero"
      unfolding tt by (rule exempt_totals_finite(1)[OF l])
    show "feq (grandTotal (calculateInvoice req)) (lineTotal (calculateInvoice req))"
      unfolding gt by (rule exempt_totals_finite(2)[OF l])
  qed
  show ?thesis
    using shape sumLines_Nil sumLines_snoc[of ls l] exempt by blast
qed

lemma franchise_sample_total:
  "lineTotal (calculateInvoice (sampleRequest\<lparr>Regime := VatFranchiseAuto\<rparr>))
   = Finite False 8796093022208000 (-43)"
  by (simp add: calculateInvoice_def sampleRequest_def sumLines_def fzero_def
      float64_of_int_10 float64_of_int_100 float64_eval)

theorem C2_calculateInvoice_witness:
  "Regime (sampleRequest\<lparr>Regime := VatFranchiseAuto\<rparr>) = VatFranchiseAuto
   \<and> is_finite (lineTotal (calculateInvoice (sampleRequest\<lparr>Regime := VatFranchiseAuto\<rparr>)))
   \<and> vatRate (calculateInvoice (sampleRequest\<lparr>Regime := VatFranchiseAuto\<rparr>)) = fzero
   \<and> feq (taxTotal (calculateInvoice (sampleRequest\<lparr>Regime := VatFranchiseAuto\<rparr>))) fzero
   \<and> feq (grandTotal (calculateInvoice (sampleRequest\<lparr>Regime := VatFranchiseAuto\<rparr>)))
         (lineTotal (calculateInvoice (sampleRequest\<lparr>Regime := VatFranchiseAuto\<rparr>)))"
proof -
  let ?r = "sampleRequest\<lparr>Regime := VatFranchiseAuto\<rparr>"
  have h1: "Regime ?r = VatFranchiseAuto \<or> Regime ?r = VatExemptHealth" by simp
  have h2: "is_finite (lineTotal (calculateInvoice ?r))"
    by (simp add: franchise_sample_total is_finite_def)
  note t = C2_calculateInvoice[of ?r "[]" "hd (Lines ?r)"]
  have r: "Regime ?r = VatFranchiseAuto" by simp
  from t h1 h2 r show ?thesis by blast
qed

text \<open>
  The claim as stated fails where the line amounts overflow: the request passes
  validation, lineTotal is \<open>+\<infinity>\<close>, and taxTotal \<open>= +\<infinity> \<sqdot> 0 / 100\<close> and grandTotal are NaN,
  neither 0 nor lineTotal.
\<close>

theorem C2_counterexample:
  "Regime overflowRequest = VatFranchiseAuto
   \<and> validate (\<lambda>r. False) overflowRequest = Some None
   \<and> lineTotal (calculateInvoice overflowRequest) = Infinity False
   \<and> taxTotal (calculateInvoice overflowRequest) = NaN
   \<and> grandTotal (calculateInvoice overflowRequest) = NaN
   \<and> \<not> feq (taxTotal (calculateInvoice overflowRequest)) fzero
   \<and> \<not> feq (grandTotal (calculateInvoice overflowRequest))
          (lineTotal (calculateInvoice overflowRequest))"
proof -
  have r: "Regime overflowRequest = VatFranchiseAuto"
    by (simp add: overflowRequest_def)
  show ?thesis
    by (simp add: r overflow_calc overflow_validate feq_def)
qed

text \<open>
  Claim C9. For every invoice request whose regime was built by \<^verbatim>\<open>VatStandard\<close>,
  \<^verbatim>\<open>VatFranchiseAuto\<close> or \<^verbatim>\<open>VatExemptHealth\<close>, the lineTotal, taxTotal and grandTotal
  strings of \<^verbatim>\<open>calculateTotals\<close> (the visual page) are the 2-decimal formattings of the
  lineTotal, taxTotal and grandTotal of \<^verbatim>\<open>calculateInvoice\<close> (the XML).
\<close>

theorem C9_totals_agree:
  assumes "(\<exists>r. Regime req = VatStandard r) \<or> Regime req = VatFranchiseAuto
           \<or> Regime req = VatExemptHealth"
  shows "fst (calculateTotals req) = fmtAmount (lineTotal (calculateInvoice req))
         \<and> fst (snd (calculateTotals req)) = fmtAmount (taxTotal (calculateInvoice req))
         \<and> fst (snd (snd (calculateTotals req))) = fmtAmount (grandTotal (calculateInvoice req))"
proof -
  have "(kind (Regime req) = vatStandard)
        \<or> (kind (Regime req) = vatFranchiseAuto \<and> rate (Regime req) = float64_of_int 0)
        \<or> (kind (Regime req) = vatExemptHealth \<and> rate (Regime req) = float64_of_int 0)"
    using assms by (auto simp: exempt_kind exempt_rate fzero_eq)
  then show ?thesis
    by (auto simp: calculateTotals_def calculateInvoice_def fmtAmount_def Let_def)
qed

theorem C9_totals_agree_witness:
  "Regime sampleRequest = VatStandard (float64_of_int 20)
   \<and> fst (calculateTotals sampleRequest) = fmtAmount (lineTotal (calculateInvoice sampleRequest))
   \<and> fst (snd (calculateTotals sampleRequest))
       = fmtAmount (taxTotal (calculateInvoice sampleRequest))
   \<and> fst (snd (snd (calculateTotals sampleRequest)))
       = fmtAmount (grandTotal (calculateInvoice sampleRequest))"
proof -
  have h: "Regime sampleRequest = VatStandard (float64_of_int 20)"
    by (simp add: sampleRequest_def)
  hence "(\<exists>r. Regime sampleRequest = VatStandard r) \<or> Regime sampleRequest = VatFranchiseAuto
           \<or> Regime sampleRequest = VatExemptHealth" by blast
  from C9_totals_agree[OF this] h show ?thesis by blast
qed

section \<open>The font parser never reads outside the buffer\<close>
























section \<open>ASCII strings and their runes\<close>

lemma DecodeRune_ascii: "b < 0x80 \<Longrightarrow> DecodeRune (b # bs) = (int b, 1)"
  by (simp add: DecodeRune_def seqLen_def Let_def split: prod.splits)

lemma decodeAll_Nil: "decodeAll [] = []"
  by (subst decodeAll.simps) simp

lemma decodeAll_ascii_Cons: "b < 0x80 \<Longrightarrow> decodeAll (b # bs) = int b # decodeAll bs"
  by (subst decodeAll.simps) (simp add: DecodeRune_ascii)

lemma decodeAll_ascii: "list_all (\<lambda>b. b < 0x80) bs \<Longrightarrow> decodeAll bs = map int bs"
  by (induction bs) (simp_all add: decodeAll_Nil decodeAll_ascii_Cons)

lemma runes_ascii: "isASCII s \<Longrightarrow> runes s = map (\<lambda>c. int (byte c)) s"
  by (simp add: isASCII_def runes_def decodeAll_ascii list_all_iff comp_def)

lemma isASCII_take: "isASCII s \<Longrightarrow> isASCII (take n s)"
  by (auto simp: isASCII_def list_all_iff dest: in_set_takeD)

lemma isASCII_drop: "isASCII s \<Longrightarrow> isASCII (drop n s)"
  by (auto simp: isASCII_def list_all_iff dest: in_set_dropD)

lemma ascii_digit_isASCII: "list_all ascii_digit s \<Longrightarrow> isASCII s"
  by (auto simp: isASCII_def ascii_digit_def list_all_iff)

lemma IsDigit_ascii: "b < 0x80 \<Longrightarrow> IsDigit (int b) = (0x30 \<le> b \<and> b \<le> 0x39)"
  by (auto simp: IsDigit_def MaxLatin1_def)

lemma IsDigit_runes_ascii:
  "isASCII s \<Longrightarrow> list_all IsDigit (runes s) = list_all ascii_digit s"
  by (auto simp: runes_ascii isASCII_def list_all_iff ascii_digit_def IsDigit_ascii)

lemma parseInt_foldl:
  "list_all ascii_digit s \<Longrightarrow>
   foldl (\<lambda>n c. n * 10 + (c - 0x30)) (int a) (map (\<lambda>c. int (byte c)) s)
   = int (foldl (\<lambda>n c. n * 10 + digit_value c) a s)"
proof (induction s arbitrary: a)
  case Nil
  show ?case by simp
next
  case (Cons c s)
  from Cons.prems have "ascii_digit c" and s: "list_all ascii_digit s"
    by simp_all
  hence c: "0x30 \<le> byte c" by (simp add: ascii_digit_def)
  have "int a * 10 + (int (byte c) - 0x30) = int (a * 10 + digit_value c)"
    using c by (simp add: digit_value_def)
  with Cons.IH[OF s, of "a * 10 + digit_value c"] show ?case by simp
qed

lemma parseInt_decimal: "list_all ascii_digit s \<Longrightarrow> parseInt s = int (decimal s)"
  using parseInt_foldl[of s 0]
  by (simp add: parseInt_def decimal_def runes_ascii ascii_digit_isASCII)

section \<open>The fields of the failures\<close>

lemma validateLines_field:
  "validateLines i ls = Some e \<Longrightarrow> \<exists>t. Field e = ''Lines['' @ t"
  by (induction i ls rule: validateLines.induct) (auto split: if_splits)

lemma validateContact_field:
  "validateContact L c p r = Some (Some e) \<Longrightarrow>
   Field e = p @ ''.Siret'' \<or> Field e = p @ ''.CountryCode''"
  by (auto simp: validateContact_def Let_def split: if_splits option.splits bind_splits)

lemma validate_date_ok:
  assumes "length (Date req) = 8" "list_all IsDigit (runes (Date req))"
    and "\<not> (parseInt (take 4 (Date req)) < 2000 \<or> 2100 < parseInt (take 4 (Date req))
            \<or> parseInt (take 2 (drop 4 (Date req))) < 1 \<or> 12 < parseInt (take 2 (drop 4 (Date req)))
            \<or> parseInt (take 2 (drop 6 (Date req))) < 1 \<or> 31 < parseInt (take 2 (drop 6 (Date req))))"
    and "validate L req = Some (Some e)"
  shows "Field e \<noteq> ''Date''"
proof -
  have sl: "slice (Date req) 0 4 = Some (take 4 (Date req))"
    "slice (Date req) 4 6 = Some (take 2 (drop 4 (Date req)))"
    "slice (Date req) 6 8 = Some (take 2 (drop 6 (Date req)))"
    using assms(1) by (simp_all add: slice_def)
  from assms(4) show ?thesis
    unfolding validate_def
    using assms(1,2,3)
    by (auto simp: sl Let_def split: if_splits option.splits bind_splits
        dest!: validateLines_field validateContact_field)
qed

lemma validate_date_bad:
  assumes "\<not> TrimSpace_empty (Number req)" "length (Date req) = 8"
    "list_all IsDigit (runes (Date req))"
    and "parseInt (take 4 (Date req)) < 2000 \<or> 2100 < parseInt (take 4 (Date req))
            \<or> parseInt (take 2 (drop 4 (Date req))) < 1 \<or> 12 < parseInt (take 2 (drop 4 (Date req)))
            \<or> parseInt (take 2 (drop 6 (Date req))) < 1 \<or> 31 < parseInt (take 2 (drop 6 (Date req)))"
  shows "validate L req = Some (Some \<lparr>Field = ''Date'', Message = ''invalid date values''\<rparr>)"
proof -
  have sl: "slice (Date req) 0 4 = Some (take 4 (Date req))"
    "slice (Date req) 4 6 = Some (take 2 (drop 4 (Date req)))"
    "slice (Date req) 6 8 = Some (take 2 (drop 6 (Date req)))"
    using assms(2) by (simp_all add: slice_def)
  show ?thesis
    unfolding validate_def using assms by (simp add: sl Let_def)
qed

lemma list_all_take: "list_all P s \<Longrightarrow> list_all P (take n s)"
  by (auto simp: list_all_iff dest: in_set_takeD)

lemma list_all_drop: "list_all P s \<Longrightarrow> list_all P (drop n s)"
  by (auto simp: list_all_iff dest: in_set_dropD)

lemma date_check_ascii:
  assumes nb: "\<not> TrimSpace_empty (Number req)" and asc: "isASCII (Date req)"
  shows "rejectsDate L req = (\<not> date_spec (Date req))"
proof (cases "length (Date req) = 8")
  case False
  then show ?thesis using nb by (simp add: rejectsDate_def validate_def date_spec_def)
next
  case len: True
  show ?thesis
  proof (cases "list_all ascii_digit (Date req)")
    case False
    hence "\<not> list_all IsDigit (runes (Date req))" by (simp add: IsDigit_runes_ascii asc)
    then show ?thesis using nb len False by (simp add: rejectsDate_def validate_def date_spec_def)
  next
    case dig: True
    hence rd: "list_all IsDigit (runes (Date req))" by (simp add: IsDigit_runes_ascii asc)
    have p: "parseInt (take 4 (Date req)) = int (decimal (take 4 (Date req)))"
      "parseInt (take 2 (drop 4 (Date req))) = int (decimal (take 2 (drop 4 (Date req))))"
      "parseInt (take 2 (drop 6 (Date req))) = int (decimal (take 2 (drop 6 (Date req))))"
      by (simp_all add: parseInt_decimal list_all_take list_all_drop dig)
    show ?thesis
    proof (cases "date_spec (Date req)")
      case True
      hence rng: "\<not> (parseInt (take 4 (Date req)) < 2000 \<or> 2100 < parseInt (take 4 (Date req))
            \<or> parseInt (take 2 (drop 4 (Date req))) < 1 \<or> 12 < parseInt (take 2 (drop 4 (Date req)))
            \<or> parseInt (take 2 (drop 6 (Date req))) < 1 \<or> 31 < parseInt (take 2 (drop 6 (Date req))))"
        unfolding p by (auto simp: date_spec_def)
      have "\<not> rejectsDate L req"
        using validate_date_ok[OF len rd rng, of L]
        by (auto simp: rejectsDate_def split: option.splits)
      with True show ?thesis by simp
    next
      case False
      hence rng: "parseInt (take 4 (Date req)) < 2000 \<or> 2100 < parseInt (take 4 (Date req))
            \<or> parseInt (take 2 (drop 4 (Date req))) < 1 \<or> 12 < parseInt (take 2 (drop 4 (Date req)))
            \<or> parseInt (take 2 (drop 6 (Date req))) < 1 \<or> 31 < parseInt (take 2 (drop 6 (Date req)))"
        unfolding p using len dig by (auto simp: date_spec_def)
      from validate_date_bad[OF nb len rd rng, of L] False show ?thesis
        by (simp add: rejectsDate_def)
    qed
  qed
qed

lemma validate_sample_date:
  assumes "length d = 8" "list_all IsDigit (runes d)"
    and "2000 \<le> parseInt (take 4 d)" "parseInt (take 4 d) \<le> 2100"
    and "1 \<le> parseInt (take 2 (drop 4 d))" "parseInt (take 2 (drop 4 d)) \<le> 12"
    and "1 \<le> parseInt (take 2 (drop 6 d))" "parseInt (take 2 (drop 6 d)) \<le> 31"
  shows "validate (\<lambda>r. False) (sampleRequest\<lparr>Date := d\<rparr>) = Some None"
proof -
  have fields: "Number (sampleRequest\<lparr>Date := d\<rparr>) = ''FA-2024-001''"
    "Date (sampleRequest\<lparr>Date := d\<rparr>) = d"
    "Seller (sampleRequest\<lparr>Date := d\<rparr>) = Seller sampleRequest"
    "Buyer (sampleRequest\<lparr>Date := d\<rparr>) = Buyer sampleRequest"
    "Lines (sampleRequest\<lparr>Date := d\<rparr>) = Lines sampleRequest"
    "Regime (sampleRequest\<lparr>Date := d\<rparr>) = VatStandard (float64_of_int 20)"
    by (simp_all add: sampleRequest_def)
  have names: "Name (Seller sampleRequest) = ''ACME Corp''"
    "Name (Buyer sampleRequest) = ''Client SA''" "Lines sampleRequest \<noteq> []"
    by (simp_all add: sampleRequest_def)
  have sl: "slice d 0 4 = Some (take 4 d)" "slice d 4 6 = Some (take 2 (drop 4 d))"
    "slice d 6 8 = Some (take 2 (drop 6 d))"
    using assms(1) by (simp_all add: slice_def)
  have rng: "\<not> parseInt (take 4 d) < 2000" "\<not> 2100 < parseInt (take 4 d)"
    "\<not> parseInt (take 2 (drop 4 d)) < 1" "\<not> 12 < parseInt (take 2 (drop 4 d))"
    "\<not> parseInt (take 2 (drop 6 d)) < 1" "\<not> 31 < parseInt (take 2 (drop 6 d))"
    using assms(3-8) by simp_all
  have t: "take 2 (drop 6 d) = drop 6 d"
    using assms(1) by simp
  show ?thesis
    unfolding validate_def
    by (simp add: fields sl names sample_strings sample_contacts sample_lines assms(1,2) rng
        rng[unfolded t] Let_def VatStandard_def float64_of_int_0 float64_of_int_20 flt_zero sval_def)
qed

lemma feb31_accepted: "validate (\<lambda>r. False) feb31Request = Some None"
  unfolding feb31Request_def by (rule validate_sample_date) code_simp+

lemma feb31_spec: "date_spec ''20240231''"
  by code_simp

lemma arabic_accepted: "validate (\<lambda>r. False) arabicDateRequest = Some None"
  unfolding arabicDateRequest_def by (rule validate_sample_date) code_simp+

lemma arabic_spec: "\<not> date_spec (Date arabicDateRequest)"
  by code_simp

lemma arabic_decoded:
  "runes (Date arabicDateRequest) = [0x34, 0x32, 0x660, 0x30, 0x31, 0x30, 0x31]"
  "parseInt (take 4 (Date arabicDateRequest)) = 2004"
  by code_simp+

text \<open>
  Claim C6. \<^verbatim>\<open>validate\<close> accepts the Date field exactly when it is 8 decimal digits whose
  first four digits decode to a year in [2000, 2100], the next two to a month in [1, 12]
  and the last two to a day in [1, 31]; no days-in-month check is made, so \<^verbatim>\<open>20240231\<close>
  passes. The statement holds of the code for every date made of ASCII bytes: the request
  (whose number is not blank, the check that comes first) is refused on the field
  \<^verbatim>\<open>Date\<close> exactly when the date is not of that form. It does not hold for every date:
  the digits are recognised by \<^verbatim>\<open>unicode.IsDigit\<close> on the decoded runes while the length
  is counted in bytes, and \<open>C6_counterexample\<close> is a date of 8 bytes and 7 characters that
  the code accepts and reads as the year 2004.
\<close>

theorem C6_date_check:
  assumes "\<not> TrimSpace_empty (Number req)" and "isASCII (Date req)"
  shows "rejectsDate L req = (\<not> date_spec (Date req))"
  using assms by (rule date_check_ascii)

theorem C6_date_check_witness:
  "\<not> TrimSpace_empty (Number feb31Request) \<and> isASCII (Date feb31Request)
   \<and> Date feb31Request = ''20240231'' \<and> date_spec (Date feb31Request)
   \<and> rejectsDate (\<lambda>r. False) feb31Request = False
   \<and> validate (\<lambda>r. False) feb31Request = Some None"
proof -
  have n: "\<not> TrimSpace_empty (Number feb31Request)"
    by (simp add: feb31Request_def sampleRequest_def sample_strings)
  have d: "Date feb31Request = ''20240231''"
    by (simp add: feb31Request_def)
  have a: "isASCII (Date feb31Request)"
    unfolding d by code_simp
  from C6_date_check[OF n a, of "\<lambda>r. False"] n a d feb31_spec feb31_accepted
  show ?thesis by simp
qed

theorem C6_counterexample:
  "\<not> TrimSpace_empty (Number arabicDateRequest)
   \<and> length (Date arabicDateRequest) = 8
   \<and> runes (Date arabicDateRequest) = [0x34, 0x32, 0x660, 0x30, 0x31, 0x30, 0x31]
   \<and> \<not> date_spec (Date arabicDateRequest)
   \<and> validate (\<lambda>r. False) arabicDateRequest = Some None
   \<and> \<not> rejectsDate (\<lambda>r. False) arabicDateRequest"
proof -
  have n: "\<not> TrimSpace_empty (Number arabicDateRequest)"
    by (simp add: arabicDateRequest_def sampleRequest_def sample_strings)
  have l: "length (Date arabicDateRequest) = 8"
    by (simp add: arabicDateRequest_def)
  have r: "\<not> rejectsDate (\<lambda>r. False) arabicDateRequest"
    by (simp add: rejectsDate_def arabic_accepted)
  from n l r arabic_decoded(1) arabic_spec arabic_accepted show ?thesis
    by blast
qed


section \<open>Escaping\<close>








section \<open>The lines in the XML\<close>








section \<open>The document builder\<close>

lemma build_objects_buffer:
  "buffer (build_objects objs b) = buffer b @ concat (map writeObject objs)"
  by (induction objs arbitrary: b) simp_all

lemma build_objects_objects: "objects (build_objects objs b) = objects b"
  by (induction objs arbitrary: b) simp_all

lemma upt_Suc_shift: "[0..<Suc n] = 0 # map Suc [0..<n]"
  by (simp add: upt_conv_Cons map_Suc_upt del: upt_Suc)

lemma build_objects_offsets:
  "offsets (build_objects objs b)
   = offsets b
     @ map (\<lambda>i. int (length (buffer b) + length (concat (map writeObject (take i objs)))))
         [0..<length objs]"
proof (induction objs arbitrary: b)
  case Nil
  show ?case by simp
next
  case (Cons obj objs)
  let ?b = "b\<lparr>offsets := offsets b @ [int (length (buffer b))], buffer := buffer b @ writeObject obj\<rparr>"
  have "offsets (build_objects (obj # objs) b) = offsets (build_objects objs ?b)"
    by simp
  also have "\<dots> = offsets ?b
     @ map (\<lambda>i. int (length (buffer ?b) + length (concat (map writeObject (take i objs)))))
         [0..<length objs]"
    by (rule Cons.IH)
  also have "\<dots> = offsets b
     @ map (\<lambda>i. int (length (buffer b) + length (concat (map writeObject (take i (obj # objs))))))
         [0..<length (obj # objs)]"
    by (simp add: upt_Suc_shift comp_def del: upt_Suc)
  finally show ?case .
qed

text \<open>The bytes that \<^verbatim>\<open>build\<close> returns.\<close>

lemma build_snd:
  "snd (build b fileID)
   = pdfHeader @ concat (map writeObject (objects b))
     @ ''xref\<newline>'' @ ''0 '' @ itoa (int (length (objects b)) + 1) @ ''\<newline>''
     @ ''0000000000 65535 f \<newline>''
     @ concat (map xrefEntry
         (map (\<lambda>i. int (length pdfHeader + length (concat (map writeObject (take i (objects b))))))
            [0..<length (objects b)]))
     @ ''trailer\<newline>''
     @ ''<< /Size '' @ itoa (int (length (objects b)) + 1)
     @ '' /Root 1 0 R /Info 2 0 R /ID [<'' @ generateFileID fileID @ ''> <''
     @ generateFileID fileID @ ''>] >>\<newline>''
     @ ''startxref\<newline>''
     @ itoa (int (length (pdfHeader @ concat (map writeObject (objects b)))))
     @ ''\<newline>%%EOF\<newline>''"
  by (simp add: build_def Let_def build_objects_buffer build_objects_objects build_objects_offsets
      del: upt_Suc)

section \<open>Generation returns\<close>

lemma generateXMPMetadata_total:
  assumes "length (Date req) = 8"
  shows "\<exists>x. generateXMPMetadata req = Some x"
proof -
  have sl: "slice (Date req) 0 4 = Some (take 4 (Date req))"
    "slice (Date req) 4 6 = Some (take 2 (drop 4 (Date req)))"
    "slice (Date req) 6 8 = Some (take 2 (drop 6 (Date req)))"
    using assms by (simp_all add: slice_def)
  show ?thesis
    unfolding generateXMPMetadata_def sl by (simp only: bind.bind_lunit) blast
qed

lemma pageTop_total:
  assumes "length (Date req) = 8"
  shows "\<exists>t. pageTop req pw ph mg = Some t"
proof -
  have sl: "slice (Date req) 0 4 = Some (take 4 (Date req))"
    "slice (Date req) 4 6 = Some (take 2 (drop 4 (Date req)))"
    "slice (Date req) 6 8 = Some (take 2 (drop 6 (Date req)))"
    using assms by (simp_all add: slice_def)
  show ?thesis
    unfolding pageTop_def sl Let_def by (simp only: bind.bind_lunit) blast
qed

lemma rowDescription_abridged: "rowDescription d = Some (abridged d)"
  by (simp add: rowDescription_def abridged_def slice_def)

lemma pageRow_text:
  "\<exists>pre post. pageRow pw mg i line y
     = Some (pre @ writeTextColored (abridged (Description line)) mg (fadd y (fl 3)) (fl 10)
                     (float64_lit 2 1) (float64_lit 2 1) (float64_lit 2 1) @ post)"
  unfolding pageRow_def rowDescription_abridged Let_def
  by (simp only: bind.bind_lunit option.inject) blast

lemma pageRows_nth:
  "\<exists>rows y'. pageRows pw mg k ls y = Some (rows, y')
     \<and> (\<forall>i < length ls. \<exists>pre post yi.
           rows = pre @ writeTextColored (abridged (Description (ls ! i))) mg (fadd yi (fl 3)) (fl 10)
                          (float64_lit 2 1) (float64_lit 2 1) (float64_lit 2 1) @ post)"
proof (induction ls arbitrary: k y)
  case Nil
  show ?case by simp
next
  case (Cons l ls)
  from pageRow_text[of pw mg k l y] obtain p q where
    row: "pageRow pw mg k l y
     = Some (p @ writeTextColored (abridged (Description l)) mg (fadd y (fl 3)) (fl 10)
                     (float64_lit 2 1) (float64_lit 2 1) (float64_lit 2 1) @ q)"
    by blast
  from Cons.IH[of "Suc k" "fsub y (fl 22)"] obtain rows y' where
    rest: "pageRows pw mg (Suc k) ls (fsub y (fl 22)) = Some (rows, y')"
    and nth: "\<forall>i < length ls. \<exists>pre post yi.
           rows = pre @ writeTextColored (abridged (Description (ls ! i))) mg (fadd yi (fl 3)) (fl 10)
                          (float64_lit 2 1) (float64_lit 2 1) (float64_lit 2 1) @ post"
    by blast
  let ?row = "p @ writeTextColored (abridged (Description l)) mg (fadd y (fl 3)) (fl 10)
                     (float64_lit 2 1) (float64_lit 2 1) (float64_lit 2 1) @ q"
  have eq: "pageRows pw mg k (l # ls) y = Some (?row @ rows, y')"
    by (simp add: row rest)
  have "\<exists>pre post yi.
           ?row @ rows = pre @ writeTextColored (abridged (Description ((l # ls) ! i))) mg
                          (fadd yi (fl 3)) (fl 10)
                          (float64_lit 2 1) (float64_lit 2 1) (float64_lit 2 1) @ post"
    if i: "i < length (l # ls)" for i
  proof (cases i)
    case 0
    have "?row @ rows = p @ writeTextColored (abridged (Description ((l # ls) ! 0))) mg
                          (fadd y (fl 3)) (fl 10)
                          (float64_lit 2 1) (float64_lit 2 1) (float64_lit 2 1) @ (q @ rows)"
      by simp
    then show ?thesis unfolding 0 by blast
  next
    case (Suc j)
    with i have "j < length ls" by simp
    with nth obtain pre post yi where
      "rows = pre @ writeTextColored (abridged (Description (ls ! j))) mg (fadd yi (fl 3)) (fl 10)
                          (float64_lit 2 1) (float64_lit 2 1) (float64_lit 2 1) @ post"
      by blast
    hence "?row @ rows = (?row @ pre) @ writeTextColored (abridged (Description ((l # ls) ! i))) mg
                          (fadd yi (fl 3)) (fl 10)
                          (float64_lit 2 1) (float64_lit 2 1) (float64_lit 2 1) @ post"
      by (simp add: Suc)
    then show ?thesis by blast
  qed
  with eq show ?case by blast
qed

lemma generatePageContent_rows:
  assumes "length (Date req) = 8"
  shows "\<exists>content. generatePageContent req lt tt gt vr vt m pw ph mg = Some content
     \<and> (\<forall>i < length (Lines req). \<exists>pre post x y.
           content = pre @ writeTextColored (abridged (Description (Lines req ! i))) x y (fl 10)
                          (float64_lit 2 1) (float64_lit 2 1) (float64_lit 2 1) @ post)"
proof -
  from pageTop_total[OF assms, of pw ph mg] obtain top where
    top: "pageTop req pw ph mg = Some top" by blast
  from pageRows_nth[of pw mg 0 "Lines req" "fsub (fsub ph (fl 230)) (fl 25)"]
  obtain rows y' where
    rows: "pageRows pw mg 0 (Lines req) (fsub (fsub ph (fl 230)) (fl 25)) = Some (rows, y')"
    and nth: "\<forall>i < length (Lines req). \<exists>pre post yi.
           rows = pre @ writeTextColored (abridged (Description (Lines req ! i))) mg
                          (fadd yi (fl 3)) (fl 10)
                          (float64_lit 2 1) (float64_lit 2 1) (float64_lit 2 1) @ post"
    by blast
  let ?bottom = "pageBottom req lt tt gt vr vt pw mg y'"
  have eq: "generatePageContent req lt tt gt vr vt m pw ph mg = Some (top @ rows @ ?bottom)"
    by (simp add: generatePageContent_def top rows)
  have "\<exists>pre post x y.
           top @ rows @ ?bottom
           = pre @ writeTextColored (abridged (Description (Lines req ! i))) x y (fl 10)
                          (float64_lit 2 1) (float64_lit 2 1) (float64_lit 2 1) @ post"
    if "i < length (Lines req)" for i
  proof -
    from nth that obtain pre post yi where
      "rows = pre @ writeTextColored (abridged (Description (Lines req ! i))) mg
                          (fadd yi (fl 3)) (fl 10)
                          (float64_lit 2 1) (float64_lit 2 1) (float64_lit 2 1) @ post"
      by blast
    hence "top @ rows @ ?bottom
       = (top @ pre) @ writeTextColored (abridged (Description (Lines req ! i))) mg
                          (fadd yi (fl 3)) (fl 10)
                          (float64_lit 2 1) (float64_lit 2 1) (float64_lit 2 1) @ (post @ ?bottom)"
      by simp
    then show ?thesis by blast
  qed
  with eq show ?thesis by blast
qed

lemma validate_ok_date: "validate L req = Some None \<Longrightarrow> length (Date req) = 8"
  by (simp add: validate_def split: if_splits)

lemma itoa_16: "itoa 16 = ''16''"
  by code_simp

lemma documentObjects_objects:
  "length (objects (documentObjects res req xml m xmp cs)) = 15"
  "objects (documentObjects res req xml m xmp cs) ! 9
   = \<lparr>num = 10, gen = 0, content = embeddedFileContent xml, stream = Some xml\<rparr>"
  by (simp_all add: documentObjects_def Let_def addObject_def newPDFBuilder_def)

lemma generatePDF_build:
  assumes "getFontMetrics res = Some m" and "length (Date req) = 8"
  shows "\<exists>xmp cs. generatePDF res req xml
     = Some (snd (build (documentObjects res req xml m xmp cs) (Number req @ ''_'' @ Date req)))"
proof -
  obtain lt tt gt vr vt where t: "calculateTotals req = (lt, tt, gt, vr, vt)"
    by (cases "calculateTotals req") auto
  from generateXMPMetadata_total[OF assms(2)] obtain xmp where
    xmp: "generateXMPMetadata req = Some xmp" by blast
  from generatePageContent_rows[OF assms(2), of lt tt gt vr vt m
      "float64_lit 59528 2" "float64_lit 84189 2" "float64_lit 500 1"]
  obtain cs where
    cs: "generatePageContent req lt tt gt vr vt m
           (float64_lit 59528 2) (float64_lit 84189 2) (float64_lit 500 1) = Some cs"
    by blast
  have "generatePDF res req xml
     = Some (snd (build (documentObjects res req xml m xmp cs) (Number req @ ''_'' @ Date req)))"
    using cs by (simp add: generatePDF_def t assms(1) xmp)
  then show ?thesis by blast
qed

lemma Generate_ok:
  assumes "validate L req = Some None" and "getFontMetrics res = Some m"
  shows "\<exists>xmp cs. Generate L res req
     = Some (Some (snd (build (documentObjects res req (generateCIIXML req) m xmp cs)
                          (Number req @ ''_'' @ Date req))), None)"
proof -
  from generatePDF_build[OF assms(2) validate_ok_date[OF assms(1)], of "generateCIIXML req"]
  obtain xmp cs where
    "generatePDF res req (generateCIIXML req)
     = Some (snd (build (documentObjects res req (generateCIIXML req) m xmp cs)
                    (Number req @ ''_'' @ Date req)))"
    by blast
  hence "Generate L res req
     = Some (Some (snd (build (documentObjects res req (generateCIIXML req) m xmp cs)
                          (Number req @ ''_'' @ Date req))), None)"
    by (simp add: Generate_def assms(1))
  then show ?thesis by blast
qed

lemma getFontMetrics_parsed: "parseTTF (fontData res) = Some (Inr m) \<Longrightarrow> getFontMetrics res = Some m"
  by (simp add: getFontMetrics_def)

end
